theory Spec2Isabelle
  imports Main
begin

unbundle bit_operations_syntax

section \<open>Data model of \<^verbatim>\<open>xl-objects.go\<close>\<close>

text \<open>
  The object layer of \<^verbatim>\<open>xl-objects.go\<close> is embedded as pure functions that pass the state of
  the storage backend explicitly. Go's \<^verbatim>\<open>error\<close> interface is one datatype; a Go function
  returning \<^verbatim>\<open>(v, err)\<close> returns a sum (\<open>Inl\<close> the error) or, where the source uses both
  components, a pair. Byte slices and strings are \<open>string\<close> (lists of 8-bit characters),
  \<^verbatim>\<open>int64\<close> offsets and sizes are \<open>int\<close>. Calls to the logger are left out.
\<close>

type_synonym bytes = string

datatype error =
    errFileNotFound
  | errUnexpected
  | errReadQuorum
  | errDiskNotFound
  | errVolumeAccessDenied
  | errFileAccessDenied
  | io_EOF
  | BucketNameInvalid string
  | BucketNotFound string
  | ObjectNameInvalid string string
  | ObjectNotFound string string
  | BadDigest string string
  | errors_New string
  | OtherError nat

text \<open>A run-time panic of the Go program (an index out of range), kept apart from errors.\<close>

datatype panic = IndexOutOfRange

text \<open>
  An \<^verbatim>\<open>io.Reader\<close> handed out by the backend or by the caller: the bytes it yields, then
  either end of input (\<open>None\<close>) or a read error.
\<close>

type_synonym stream = "bytes \<times> error option"

text \<open>
  The \<^verbatim>\<open>io.Reader\<close> given to \<^verbatim>\<open>PutObject\<close>: the chunks returned by its successive
  \<^verbatim>\<open>Read\<close> calls, then end of input (\<open>None\<close>) or a read error.
\<close>

record reader =
  chunks :: "bytes list"
  rerr :: "error option"

record FileInfo =
  fi_Size :: int
  fi_ModTime :: int
  fi_MD5Sum :: string
  fi_IsDir :: bool

record MultipartPartInfo =
  PartNumber :: int
  part_Size :: int

record MultipartObjectInfo =
  Parts :: "MultipartPartInfo list"
  mp_ModTime :: int
  mp_Size :: int
  mp_MD5Sum :: string

record ObjectInfo =
  oi_Bucket :: string
  oi_Name :: string
  oi_ModTime :: int
  oi_Size :: int
  oi_IsDir :: bool
  oi_ContentType :: string
  oi_MD5Sum :: string

record xlFormat =
  Version :: string
  Disks :: "string list"

definition multipartSuffix :: string where
  "multipartSuffix = ''.minio.multipart''"

definition multipartMetaFile :: string where
  "multipartMetaFile = ''00000'' @ multipartSuffix"

definition formatConfigFile :: string where
  "formatConfigFile = ''format.json''"

subsection \<open>The storage interface\<close>

text \<open>
  \<^verbatim>\<open>StorageAPI\<close> is a Go interface; it is a record of operations on a backend state
  \<open>'s\<close>, each returning its result and the new state. \<open>'w\<close> is the
  \<^verbatim>\<open>io.WriteCloser\<close> that \<^verbatim>\<open>CreateFile\<close> hands out, with its \<^verbatim>\<open>Write\<close> and
  \<^verbatim>\<open>Close\<close> methods. \<^verbatim>\<open>StatFile\<close> returns both of its Go results, since
  \<^verbatim>\<open>getObjectInfo\<close> goes on using the \<^verbatim>\<open>FileInfo\<close> after an error.
\<close>

record ('s, 'w) StorageAPI =
  StatFile :: "string \<Rightarrow> string \<Rightarrow> 's \<Rightarrow> (FileInfo \<times> error option) \<times> 's"
  ReadFile :: "string \<Rightarrow> string \<Rightarrow> int \<Rightarrow> 's \<Rightarrow> (error + stream) \<times> 's"
  CreateFile :: "string \<Rightarrow> string \<Rightarrow> 's \<Rightarrow> (error + 'w) \<times> 's"
  RenameFile :: "string \<Rightarrow> string \<Rightarrow> string \<Rightarrow> string \<Rightarrow> 's \<Rightarrow> error option \<times> 's"
  DeleteFile :: "string \<Rightarrow> string \<Rightarrow> 's \<Rightarrow> error option \<times> 's"
  Write :: "'w \<Rightarrow> bytes \<Rightarrow> 's \<Rightarrow> error option \<times> 's"
  Close :: "'w \<Rightarrow> 's \<Rightarrow> error option \<times> 's"

text \<open>
  The functions, tables and constants that \<^verbatim>\<open>xl-objects.go\<close> uses and that are declared in
  other files of the package or in libraries are parameters of the embedding. Those that
  work on the backend take and return its state.
\<close>

record ('s, 'w) deps =
  IsValidBucketName :: "string \<Rightarrow> bool"
  IsValidObjectName :: "string \<Rightarrow> bool"
  isBucketExist :: "string \<Rightarrow> 's \<Rightarrow> bool \<times> 's"
  toObjectErr :: "error \<Rightarrow> string \<Rightarrow> string \<Rightarrow> error"
  safeCloseAndRemove :: "'w \<Rightarrow> 's \<Rightarrow> error option \<times> 's"
  parentDirIsObject :: "string \<Rightarrow> string \<Rightarrow> 's \<Rightarrow> error option \<times> 's"
  pathJoin :: "string \<Rightarrow> string \<Rightarrow> string"
  partNumToPartFileName :: "int \<Rightarrow> string"
  path_Join :: "string list \<Rightarrow> string"
  path_Dir :: "string \<Rightarrow> string"
  json_Decode :: "stream \<Rightarrow> error + MultipartObjectInfo"
  mimedb_DB :: "string \<rightharpoonup> string"
  strings_ToLower :: "string \<Rightarrow> string"
  minioMetaBucket :: string
  tmpMetaPrefix :: string
  newXL :: "string list \<Rightarrow> error + 's"
  initObjectLayer :: "'s \<Rightarrow> 's"
  checkFormat :: "'s \<Rightarrow> error option \<times> 's"
  saveFormatXL :: "xlFormat \<Rightarrow> 's \<Rightarrow> error option \<times> 's"
  loadFormatXL :: "'s \<Rightarrow> (error + xlFormat) \<times> 's"

section \<open>Backend format validation\<close>

text \<open>
  The loop of \<^verbatim>\<open>isValidFormat\<close> over \<^verbatim>\<open>xl.Disks\<close>: \<^verbatim>\<open>exportPaths[index]\<close> panics in Go
  when \<open>index\<close> is out of range, so the model has that branch too.
\<close>

fun disksInOrder :: "string list \<Rightarrow> nat \<Rightarrow> string list \<Rightarrow> panic + bool" where
  "disksInOrder exportPaths index [] = Inr True"
| "disksInOrder exportPaths index (disk # rest) =
     (if length exportPaths \<le> index then Inl IndexOutOfRange
      else if exportPaths ! index \<noteq> disk then Inr False
      else disksInOrder exportPaths (Suc index) rest)"

definition isValidFormat ::
  "('s, 'w) deps \<Rightarrow> string list \<Rightarrow> 's \<Rightarrow> (panic + bool) \<times> 's" where
  "isValidFormat d exportPaths st =
     (case loadFormatXL d st of
        (Inl err, st1) \<Rightarrow> (Inr False, st1)
      | (Inr xl, st1) \<Rightarrow>
          if Version xl \<noteq> ''1'' then (Inr False, st1)
          else if length exportPaths \<noteq> length (Disks xl) then (Inr False, st1)
          else (disksInOrder exportPaths 0 (Disks xl), st1))"

text \<open>\<^verbatim>\<open>fmt\<close> prints a slice of strings under \<^verbatim>\<open>%s\<close> as its elements between brackets.\<close>

fun fmt_words :: "string list \<Rightarrow> string" where
  "fmt_words [] = []"
| "fmt_words [x] = x"
| "fmt_words (x # y # ys) = x @ '' '' @ fmt_words (y # ys)"

definition fmt_strings :: "string list \<Rightarrow> string" where
  "fmt_strings xs = ''['' @ fmt_words xs @ '']''"

text \<open>
  \<^verbatim>\<open>newXLObjects\<close>: the result is the backend state of the new object layer (its
  \<^verbatim>\<open>listObjectMap\<close> starts empty), or the error. A panic of \<^verbatim>\<open>isValidFormat\<close> would end
  the process; it is the outer \<open>Inl\<close>. \<open>checkFormatError\<close> is the rewording of the
  error of \<^verbatim>\<open>checkFormat\<close> (lines 98 to 107), and \<open>validateAndReturn\<close> the end of the
  function (lines 112 to 123), reached when the format exists or has just been saved.
\<close>

definition checkFormatError :: "error \<Rightarrow> string list \<Rightarrow> error" where
  "checkFormatError err exportPaths =
     (if err = errReadQuorum then
        errors_New (''Not all disks '' @ fmt_strings exportPaths
                    @ '' are available, did not meet read quroum.'')
      else if err = errDiskNotFound then
        errors_New (''Disks '' @ fmt_strings exportPaths @ '' not found.'')
      else if err = errVolumeAccessDenied then
        errors_New (''Disks '' @ fmt_strings exportPaths @ '' access permission denied.'')
      else err)"

definition validateAndReturn ::
  "('s, 'w) deps \<Rightarrow> string list \<Rightarrow> 's \<Rightarrow> panic + (error + 's)" where
  "validateAndReturn d exportPaths st =
     (case isValidFormat d exportPaths st of
        (Inl p, st1) \<Rightarrow> Inl p
      | (Inr False, st1) \<Rightarrow>
          Inr (Inl (errors_New (''Command-line arguments '' @ fmt_strings exportPaths
                                @ '' is not valid.'')))
      | (Inr True, st1) \<Rightarrow> Inr (Inr st1))"

definition newXLObjects :: "('s, 'w) deps \<Rightarrow> string list \<Rightarrow> panic + (error + 's)" where
  "newXLObjects d exportPaths =
     (case newXL d exportPaths of
        Inl err \<Rightarrow> Inr (Inl err)
      | Inr storage \<Rightarrow>
          let st1 = initObjectLayer d storage in
          (case checkFormat d st1 of
             (None, st2) \<Rightarrow> validateAndReturn d exportPaths st2
           | (Some err, st2) \<Rightarrow>
               if err = errFileNotFound then
                 (case saveFormatXL d \<lparr>Version = ''1'', Disks = exportPaths\<rparr> st2 of
                    (Some errSave, st3) \<Rightarrow> Inr (Inl errSave)
                  | (None, st3) \<Rightarrow> validateAndReturn d exportPaths st3)
               else Inr (Inl (checkFormatError err exportPaths))))"

section \<open>Library functions used by the object layer\<close>

subsection \<open>\<^verbatim>\<open>crypto/md5\<close> and \<^verbatim>\<open>encoding/hex\<close>\<close>

text \<open>
  MD5 as the Go library computes it (RFC 1321). A 32-bit word is an \<open>int\<close> between \<open>0\<close> and
  \<open>2 ^ 32 - 1\<close>; additions and left rotations wrap around explicitly.
\<close>

definition add32 :: "int \<Rightarrow> int \<Rightarrow> int" where
  "add32 x y = (x + y) mod 4294967296"

definition rotl32 :: "int \<Rightarrow> nat \<Rightarrow> int" where
  "rotl32 x s = (x * 2 ^ s) mod 4294967296 + x div 2 ^ (32 - s)"

definition not32 :: "int \<Rightarrow> int" where
  "not32 x = 4294967295 - x"

definition md5_K :: "int list" where
  "md5_K = [
    0xd76aa478, 0xe8c7b756, 0x242070db, 0xc1bdceee, 0xf57c0faf, 0x4787c62a, 0xa8304613, 0xfd469501,
    0x698098d8, 0x8b44f7af, 0xffff5bb1, 0x895cd7be, 0x6b901122, 0xfd987193, 0xa679438e, 0x49b40821,
    0xf61e2562, 0xc040b340, 0x265e5a51, 0xe9b6c7aa, 0xd62f105d, 0x02441453, 0xd8a1e681, 0xe7d3fbc8,
    0x21e1cde6, 0xc33707d6, 0xf4d50d87, 0x455a14ed, 0xa9e3e905, 0xfcefa3f8, 0x676f02d9, 0x8d2a4c8a,
    0xfffa3942, 0x8771f681, 0x6d9d6122, 0xfde5380c, 0xa4beea44, 0x4bdecfa9, 0xf6bb4b60, 0xbebfbc70,
    0x289b7ec6, 0xeaa127fa, 0xd4ef3085, 0x04881d05, 0xd9d4d039, 0xe6db99e5, 0x1fa27cf8, 0xc4ac5665,
    0xf4292244, 0x432aff97, 0xab9423a7, 0xfc93a039, 0x655b59c3, 0x8f0ccc92, 0xffeff47d, 0x85845dd1,
    0x6fa87e4f, 0xfe2ce6e0, 0xa3014314, 0x4e0811a1, 0xf7537e82, 0xbd3af235, 0x2ad7d2bb, 0xeb86d391]"

definition md5_S :: "nat list" where
  "md5_S = [7, 12, 17, 22, 7, 12, 17, 22, 7, 12, 17, 22, 7, 12, 17, 22,
            5, 9, 14, 20, 5, 9, 14, 20, 5, 9, 14, 20, 5, 9, 14, 20,
            4, 11, 16, 23, 4, 11, 16, 23, 4, 11, 16, 23, 4, 11, 16, 23,
            6, 10, 15, 21, 6, 10, 15, 21, 6, 10, 15, 21, 6, 10, 15, 21]"

definition md5_F :: "nat \<Rightarrow> int \<Rightarrow> int \<Rightarrow> int \<Rightarrow> int" where
  "md5_F i b c d =
     (if i < 16 then (b AND c) OR (not32 b AND d)
      else if i < 32 then (d AND b) OR (not32 d AND c)
      else if i < 48 then b XOR c XOR d
      else c XOR (b OR not32 d))"

definition md5_g :: "nat \<Rightarrow> nat" where
  "md5_g i =
     (if i < 16 then i
      else if i < 32 then (5 * i + 1) mod 16
      else if i < 48 then (3 * i + 5) mod 16
      else (7 * i) mod 16)"

fun md5_step :: "int list \<Rightarrow> nat \<Rightarrow> int \<times> int \<times> int \<times> int \<Rightarrow> int \<times> int \<times> int \<times> int" where
  "md5_step M i (a, b, c, d) =
     (d,
      add32 b (rotl32 (add32 (add32 (add32 a (md5_F i b c d)) (md5_K ! i)) (M ! md5_g i))
                      (md5_S ! i)),
      b, c)"

fun le_int :: "bytes \<Rightarrow> int" where
  "le_int [] = 0"
| "le_int (c # cs) = int (of_char c) + 256 * le_int cs"

definition le_bytes :: "nat \<Rightarrow> nat \<Rightarrow> bytes" where
  "le_bytes n v = map (\<lambda>i. char_of (v div 256 ^ i mod 256)) [0..<n]"

text \<open>The 32-bit little-endian words of a block, four bytes at a time.\<close>

fun md5_words :: "bytes \<Rightarrow> int list" where
  "md5_words (b0 # b1 # b2 # b3 # rest) = le_int [b0, b1, b2, b3] # md5_words rest"
| "md5_words rest = []"

text \<open>\<open>md5_rounds M n i h\<close> runs \<open>n\<close> steps from step \<open>i\<close> on.\<close>

fun md5_rounds ::
  "int list \<Rightarrow> nat \<Rightarrow> nat \<Rightarrow> int \<times> int \<times> int \<times> int \<Rightarrow> int \<times> int \<times> int \<times> int" where
  "md5_rounds M 0 i h = h"
| "md5_rounds M (Suc n) i h = md5_rounds M n (i + 1) (md5_step M i h)"

fun md5_add :: "int \<times> int \<times> int \<times> int \<Rightarrow> int \<times> int \<times> int \<times> int \<Rightarrow> int \<times> int \<times> int \<times> int" where
  "md5_add (a0, b0, c0, d0) (a, b, c, d) = (add32 a0 a, add32 b0 b, add32 c0 c, add32 d0 d)"

definition md5_block :: "bytes \<Rightarrow> int \<times> int \<times> int \<times> int \<Rightarrow> int \<times> int \<times> int \<times> int" where
  "md5_block blk h = md5_add h (md5_rounds (md5_words blk) 64 0 h)"

definition md5_pad :: "bytes \<Rightarrow> bytes" where
  "md5_pad m =
     m @ [char_of (128 :: nat)] @ replicate ((119 - length m mod 64) mod 64) (char_of (0 :: nat))
       @ le_bytes 8 ((8 * length m) mod 2 ^ 64)"

fun md5_out :: "int \<times> int \<times> int \<times> int \<Rightarrow> bytes" where
  "md5_out (a, b, c, d) =
     le_bytes 4 (nat a) @ le_bytes 4 (nat b) @ le_bytes 4 (nat c) @ le_bytes 4 (nat d)"

definition md5_Sum :: "bytes \<Rightarrow> bytes" where
  "md5_Sum m =
     (let p = md5_pad m in
      md5_out (fold (\<lambda>k. md5_block (take 64 (drop (64 * k) p))) [0..<length p div 64]
                 (0x67452301, 0xefcdab89, 0x98badcfe, 0x10325476)))"

definition hextable :: string where
  "hextable = ''0123456789abcdef''"

definition hex_EncodeToString :: "bytes \<Rightarrow> string" where
  "hex_EncodeToString src =
     concat (map (\<lambda>c. [hextable ! (of_char c div 16), hextable ! (of_char c mod 16)]) src)"

subsection \<open>\<^verbatim>\<open>path/filepath\<close> and \<^verbatim>\<open>strings\<close>\<close>

text \<open>
  \<^verbatim>\<open>filepath.Ext\<close> scans the name backwards from its end, up to the last path separator,
  and returns the suffix that starts at the first dot it meets; \<open>acc\<close> is the part of
  the name already passed.
\<close>

fun extScan :: "string \<Rightarrow> string \<Rightarrow> string" where
  "extScan [] acc = []"
| "extScan (c # cs) acc =
     (if c = CHR ''/'' then []
      else if c = CHR ''.'' then c # acc
      else extScan cs (c # acc))"

definition filepath_Ext :: "string \<Rightarrow> string" where
  "filepath_Ext path = extScan (rev path) []"

definition strings_TrimPrefix :: "string \<Rightarrow> string \<Rightarrow> string" where
  "strings_TrimPrefix s prefix =
     (if take (length prefix) s = prefix then drop (length prefix) s else s)"

subsection \<open>\<^verbatim>\<open>io.Copy\<close> and \<^verbatim>\<open>io.CopyN\<close> into the staged file\<close>

text \<open>
  \<^verbatim>\<open>io.Copy\<close> writes every non-empty chunk it reads to the multi-writer (the MD5 hash, which
  cannot fail, and the file writer) and stops at the first write error. The bytes
  returned are those written, which are also the bytes hashed when no error occurs.
\<close>

fun writeChunks ::
  "('s, 'w) StorageAPI \<Rightarrow> 'w \<Rightarrow> bytes list \<Rightarrow> 's \<Rightarrow> (bytes \<times> error option) \<times> 's" where
  "writeChunks S w [] st = (([], None), st)"
| "writeChunks S w (c # cs) st =
     (if c = [] then writeChunks S w cs st
      else (case Write S w c st of
              (Some ew, st1) \<Rightarrow> (([], Some ew), st1)
            | (None, st1) \<Rightarrow>
                (case writeChunks S w cs st1 of
                   ((written, err), st2) \<Rightarrow> ((c @ written, err), st2))))"

definition io_Copy ::
  "('s, 'w) StorageAPI \<Rightarrow> 'w \<Rightarrow> reader \<Rightarrow> 's \<Rightarrow> (bytes \<times> error option) \<times> 's" where
  "io_Copy S w src st =
     (case writeChunks S w (chunks src) st of
        ((written, Some ew), st1) \<Rightarrow> ((written, Some ew), st1)
      | ((written, None), st1) \<Rightarrow> ((written, rerr src), st1))"

text \<open>
  \<^verbatim>\<open>io.LimitReader\<close>: every read is cut to the number of bytes still allowed, and the
  reader is at its end once \<open>n\<close> bytes have been returned.
\<close>

fun limitChunks :: "int \<Rightarrow> bytes list \<Rightarrow> bytes list" where
  "limitChunks n [] = []"
| "limitChunks n (c # cs) =
     (if n \<le> 0 then [] else take (nat n) c # limitChunks (n - int (length c)) cs)"

text \<open>
  \<^verbatim>\<open>io.CopyN\<close> copies from the limited reader; when fewer than \<open>n\<close> bytes were written and
  no error occurred, the error is \<^verbatim>\<open>io.EOF\<close>.
\<close>

definition io_CopyN ::
  "('s, 'w) StorageAPI \<Rightarrow> 'w \<Rightarrow> reader \<Rightarrow> int \<Rightarrow> 's \<Rightarrow> (bytes \<times> error option) \<times> 's" where
  "io_CopyN S w src n st =
     (case writeChunks S w (limitChunks n (chunks src)) st of
        ((written, Some ew), st1) \<Rightarrow> ((written, Some ew), st1)
      | ((written, None), st1) \<Rightarrow>
          if int (length written) = n then ((written, None), st1)
          else (case rerr src of
                  Some er \<Rightarrow> ((written, Some er), st1)
                | None \<Rightarrow> ((written, Some io_EOF), st1)))"

section \<open>Object operations\<close>

subsection \<open>The multipart object model\<close>

text \<open>
  \<^verbatim>\<open>isMultipartObject\<close> returns \<^verbatim>\<open>(false, nil)\<close>, \<^verbatim>\<open>(false, err)\<close> or \<^verbatim>\<open>(true, nil)\<close>:
  \<open>Inr False\<close>, \<open>Inl err\<close>, \<open>Inr True\<close>.
\<close>

definition isMultipartObject ::
  "('s, 'w) StorageAPI \<Rightarrow> ('s, 'w) deps \<Rightarrow> string \<Rightarrow> string \<Rightarrow> 's \<Rightarrow> (error + bool) \<times> 's" where
  "isMultipartObject S d bucket object st =
     (case StatFile S bucket (pathJoin d object multipartMetaFile) st of
        ((fi, Some err), st1) \<Rightarrow>
          if err = errFileNotFound then (Inr False, st1) else (Inl err, st1)
      | ((fi, None), st1) \<Rightarrow> (Inr True, st1))"

definition getMultipartObjectInfo ::
  "('s, 'w) StorageAPI \<Rightarrow> ('s, 'w) deps \<Rightarrow> string \<Rightarrow> string \<Rightarrow> 's
     \<Rightarrow> (error + MultipartObjectInfo) \<times> 's" where
  "getMultipartObjectInfo S d bucket object st =
     (case ReadFile S bucket (pathJoin d object multipartMetaFile) 0 st of
        (Inl err, st1) \<Rightarrow> (Inl err, st1)
      | (Inr r, st1) \<Rightarrow> (json_Decode d r, st1))"

text \<open>
  Modelled from the spec: \<^verbatim>\<open>MultipartObjectInfo.GetPartNumberOffset\<close>, whose source is in
  another file of the package. The spec (4.2, \<^verbatim>\<open>locate\<close>): a forward scan over the ordered
  part sequence accumulating sizes until the cumulative size exceeds the byte offset,
  returning the owning part's index and the residual offset within that part; it fails if
  the offset exceeds the object's total size or is negative. At an offset equal to the
  total size no part owns the offset and the spec asks for no failure: the scan ends at
  the index after the last part with residual offset 0. The spec does not name the error
  of a failure; it is \<^verbatim>\<open>errUnexpected\<close> here.
\<close>

fun locate :: "MultipartPartInfo list \<Rightarrow> nat \<Rightarrow> int \<Rightarrow> int \<Rightarrow> error + nat \<times> int" where
  "locate [] index cumulative byteOffset =
     (if cumulative < byteOffset then Inl errUnexpected
      else Inr (index, byteOffset - cumulative))"
| "locate (part # rest) index cumulative byteOffset =
     (if byteOffset < cumulative + part_Size part then Inr (index, byteOffset - cumulative)
      else locate rest (Suc index) (cumulative + part_Size part) byteOffset)"

definition GetPartNumberOffset :: "MultipartObjectInfo \<Rightarrow> int \<Rightarrow> error + nat \<times> int" where
  "GetPartNumberOffset m offset =
     (if offset < 0 then Inl errUnexpected else locate (Parts m) 0 0 offset)"

subsection \<open>\<^verbatim>\<open>GetObject\<close>\<close>

text \<open>
  The goroutine of \<^verbatim>\<open>GetObject\<close> that feeds the pipe, from the part at \<^verbatim>\<open>partIndex\<close> on:
  \<open>parts\<close> is the rest of \<^verbatim>\<open>info.Parts\<close>. The result is the stream the consumer sees when
  it reads the pipe to its end: the bytes written to the pipe, then end of input
  (\<^verbatim>\<open>fileWriter.Close\<close>) or the error the pipe was closed with. The backend calls of the
  goroutine are made as the consumer reads; the model makes them before \<^verbatim>\<open>GetObject\<close>
  returns.
\<close>

fun readParts ::
  "('s, 'w) StorageAPI \<Rightarrow> ('s, 'w) deps \<Rightarrow> string \<Rightarrow> string \<Rightarrow> MultipartPartInfo list \<Rightarrow> int
     \<Rightarrow> 's \<Rightarrow> stream \<times> 's" where
  "readParts S d bucket object [] offset st = (([], None), st)"
| "readParts S d bucket object (part # rest) offset st =
     (case ReadFile S bucket
             (pathJoin d object (partNumToPartFileName d (PartNumber part))) offset st of
        (Inl err, st1) \<Rightarrow> (([], Some err), st1)
      | (Inr (data, Some err), st1) \<Rightarrow> ((data, Some err), st1)
      | (Inr (data, None), st1) \<Rightarrow>
          (case readParts S d bucket object rest 0 st1 of
             ((later, err), st2) \<Rightarrow> ((data @ later, err), st2)))"

definition GetObject ::
  "('s, 'w) StorageAPI \<Rightarrow> ('s, 'w) deps \<Rightarrow> string \<Rightarrow> string \<Rightarrow> int \<Rightarrow> 's
     \<Rightarrow> (error + stream) \<times> 's" where
  "GetObject S d bucket object startOffset st =
     (if \<not> IsValidBucketName d bucket then (Inl (BucketNameInvalid bucket), st)
      else (case isBucketExist d bucket st of
        (False, st1) \<Rightarrow> (Inl (BucketNotFound bucket), st1)
      | (True, st1) \<Rightarrow>
      if \<not> IsValidObjectName d object then (Inl (ObjectNameInvalid bucket object), st1)
      else (case isMultipartObject S d bucket object st1 of
        (Inl err, st2) \<Rightarrow> (Inl (toObjectErr d err bucket object), st2)
      | (Inr False, st2) \<Rightarrow>
          (case StatFile S bucket object st2 of
             ((fi, None), st3) \<Rightarrow>
               (case ReadFile S bucket object startOffset st3 of
                  (Inl err, st4) \<Rightarrow> (Inl (toObjectErr d err bucket object), st4)
                | (Inr reader, st4) \<Rightarrow> (Inr reader, st4))
           | ((fi, Some err), st3) \<Rightarrow> (Inl (toObjectErr d err bucket object), st3))
      | (Inr True, st2) \<Rightarrow>
          (case getMultipartObjectInfo S d bucket object st2 of
             (Inl err, st3) \<Rightarrow> (Inl (toObjectErr d err bucket object), st3)
           | (Inr info, st3) \<Rightarrow>
               (case GetPartNumberOffset info startOffset of
                  Inl err \<Rightarrow> (Inl (toObjectErr d err bucket object), st3)
                | Inr (partIndex, offset) \<Rightarrow>
                    (case readParts S d bucket object (drop partIndex (Parts info)) offset st3 of
                       (fileReader, st4) \<Rightarrow> (Inr fileReader, st4)))))))"

subsection \<open>\<^verbatim>\<open>GetObjectInfo\<close>\<close>

text \<open>
  \<open>contentTypeOf\<close> is the computation of \<^verbatim>\<open>contentType\<close> in \<^verbatim>\<open>getObjectInfo\<close> (lines 247 to
  253), and \<open>objectInfoOf\<close> the \<^verbatim>\<open>ObjectInfo\<close> it returns (lines 254 to 262).
\<close>

definition contentTypeOf :: "('s, 'w) deps \<Rightarrow> string \<Rightarrow> string" where
  "contentTypeOf d object =
     (let objectExt = filepath_Ext object in
      if objectExt \<noteq> [] then
        (case mimedb_DB d (strings_ToLower d (strings_TrimPrefix objectExt ''.'')) of
           Some content \<Rightarrow> content
         | None \<Rightarrow> ''application/octet-stream'')
      else ''application/octet-stream'')"

definition objectInfoOf :: "('s, 'w) deps \<Rightarrow> string \<Rightarrow> string \<Rightarrow> FileInfo \<Rightarrow> ObjectInfo" where
  "objectInfoOf d bucket object fi =
     \<lparr>oi_Bucket = bucket, oi_Name = object, oi_ModTime = fi_ModTime fi, oi_Size = fi_Size fi,
      oi_IsDir = fi_IsDir fi, oi_ContentType = contentTypeOf d object,
      oi_MD5Sum = fi_MD5Sum fi\<rparr>"

definition getObjectInfo ::
  "('s, 'w) StorageAPI \<Rightarrow> ('s, 'w) deps \<Rightarrow> string \<Rightarrow> string \<Rightarrow> 's \<Rightarrow> (error + ObjectInfo) \<times> 's" where
  "getObjectInfo S d bucket object st =
     (case StatFile S bucket object st of
        ((fi, None), st1) \<Rightarrow> (Inr (objectInfoOf d bucket object fi), st1)
      | ((fi, Some err), st1) \<Rightarrow>
          if err \<noteq> errFileNotFound then (Inl err, st1)
          else (case getMultipartObjectInfo S d bucket object st1 of
                  (Inl err2, st2) \<Rightarrow> (Inl err2, st2)
                | (Inr info, st2) \<Rightarrow>
                    (Inr (objectInfoOf d bucket object
                            (fi\<lparr>fi_Size := mp_Size info, fi_ModTime := mp_ModTime info,
                                fi_MD5Sum := mp_MD5Sum info\<rparr>)), st2)))"

definition GetObjectInfo ::
  "('s, 'w) StorageAPI \<Rightarrow> ('s, 'w) deps \<Rightarrow> string \<Rightarrow> string \<Rightarrow> 's \<Rightarrow> (error + ObjectInfo) \<times> 's" where
  "GetObjectInfo S d bucket object st =
     (if \<not> IsValidBucketName d bucket then (Inl (BucketNameInvalid bucket), st)
      else (case isBucketExist d bucket st of
        (False, st1) \<Rightarrow> (Inl (BucketNotFound bucket), st1)
      | (True, st1) \<Rightarrow>
      if \<not> IsValidObjectName d object then (Inl (ObjectNameInvalid bucket object), st1)
      else (case getObjectInfo S d bucket object st1 of
        (Inl err, st2) \<Rightarrow> (Inl (toObjectErr d err bucket object), st2)
      | (Inr info, st2) \<Rightarrow> (Inr info, st2))))"

subsection \<open>\<^verbatim>\<open>deleteObject\<close> and \<^verbatim>\<open>DeleteObject\<close>\<close>

text \<open>
  The part deletions of \<^verbatim>\<open>deleteObject\<close>: one goroutine per part stores the result of its
  \<^verbatim>\<open>DeleteFile\<close> in \<^verbatim>\<open>errs[index]\<close>, and \<^verbatim>\<open>wg.Wait\<close> returns when all have finished. The
  goroutines run in any order; the model runs them in the order of the parts, every
  \<^verbatim>\<open>DeleteFile\<close> being one step. The result is the filled \<^verbatim>\<open>errs\<close>.
\<close>

fun deleteParts ::
  "('s, 'w) StorageAPI \<Rightarrow> ('s, 'w) deps \<Rightarrow> string \<Rightarrow> string \<Rightarrow> MultipartPartInfo list \<Rightarrow> 's
     \<Rightarrow> error option list \<times> 's" where
  "deleteParts S d bucket object [] st = ([], st)"
| "deleteParts S d bucket object (part # rest) st =
     (case DeleteFile S bucket
             (pathJoin d object (partNumToPartFileName d (PartNumber part))) st of
        (err, st1) \<Rightarrow>
          (case deleteParts S d bucket object rest st1 of
             (errs, st2) \<Rightarrow> (err # errs, st2)))"

text \<open>The loop over \<^verbatim>\<open>errs\<close> (lines 425 to 429): is any of them not \<open>nil\<close>?\<close>

fun anyError :: "error option list \<Rightarrow> bool" where
  "anyError [] = False"
| "anyError (err # errs) = (if err \<noteq> None then True else anyError errs)"

definition deleteObject ::
  "('s, 'w) StorageAPI \<Rightarrow> ('s, 'w) deps \<Rightarrow> string \<Rightarrow> string \<Rightarrow> 's \<Rightarrow> error option \<times> 's" where
  "deleteObject S d bucket object st =
     (case isMultipartObject S d bucket object st of
        (Inl err, st1) \<Rightarrow> (Some err, st1)
      | (Inr False, st1) \<Rightarrow> DeleteFile S bucket object st1
      | (Inr True, st1) \<Rightarrow>
          (case getMultipartObjectInfo S d bucket object st1 of
             (Inl err, st2) \<Rightarrow> (Some err, st2)
           | (Inr info, st2) \<Rightarrow>
               (case deleteParts S d bucket object (Parts info) st2 of
                  (errs, st3) \<Rightarrow>
                    if anyError errs then (Some errUnexpected, st3)
                    else DeleteFile S bucket (pathJoin d object multipartMetaFile) st3)))"

definition DeleteObject ::
  "('s, 'w) StorageAPI \<Rightarrow> ('s, 'w) deps \<Rightarrow> string \<Rightarrow> string \<Rightarrow> 's \<Rightarrow> error option \<times> 's" where
  "DeleteObject S d bucket object st =
     (if \<not> IsValidBucketName d bucket then (Some (BucketNameInvalid bucket), st)
      else (case isBucketExist d bucket st of
        (False, st1) \<Rightarrow> (Some (BucketNotFound bucket), st1)
      | (True, st1) \<Rightarrow>
      if \<not> IsValidObjectName d object then (Some (ObjectNameInvalid bucket object), st1)
      else (case deleteObject S d bucket object st1 of
        (Some err, st2) \<Rightarrow> (Some (toObjectErr d err bucket object), st2)
      | (None, st2) \<Rightarrow> (None, st2))))"

subsection \<open>\<^verbatim>\<open>PutObject\<close>\<close>

text \<open>
  \<^verbatim>\<open>PutObject\<close> is embedded in three parts, in the order of the source. \<open>putActivate\<close> is
  the end of the function (lines 354 to 376): the check of the parent directories, the
  deletion of the object already there, and the rename of the staged file.
\<close>

definition putActivate ::
  "('s, 'w) StorageAPI \<Rightarrow> ('s, 'w) deps \<Rightarrow> string \<Rightarrow> string \<Rightarrow> string \<Rightarrow> string \<Rightarrow> 's
     \<Rightarrow> (error + string) \<times> 's" where
  "putActivate S d bucket object tempObj newMD5Hex st =
     (case parentDirIsObject d bucket (path_Dir d object) st of
        (Some err, st1) \<Rightarrow> (Inl (toObjectErr d err bucket object), st1)
      | (None, st1) \<Rightarrow>
          (case deleteObject S d bucket object st1 of
             (err, st2) \<Rightarrow>
               if err \<noteq> None \<and> err \<noteq> Some errFileNotFound
               then (Inl (toObjectErr d (the err) bucket object), st2)
               else (case RenameFile S (minioMetaBucket d) tempObj bucket object st2 of
                       (Some renErr, st3) \<Rightarrow>
                         (case DeleteFile S (minioMetaBucket d) tempObj st3 of
                            (Some derr, st4) \<Rightarrow> (Inl (toObjectErr d derr bucket object), st4)
                          | (None, st4) \<Rightarrow> (Inl (toObjectErr d renErr bucket object), st4))
                     | (None, st3) \<Rightarrow> (Inr newMD5Hex, st3))))"

text \<open>
  \<open>putVerify\<close> is the middle of \<^verbatim>\<open>PutObject\<close> (lines 332 to 352): \<open>written\<close> are the bytes
  that went through the MD5 writer. A Go map without the key yields the empty string.
\<close>

definition putVerify ::
  "('s, 'w) StorageAPI \<Rightarrow> ('s, 'w) deps \<Rightarrow> string \<Rightarrow> string \<Rightarrow> string \<Rightarrow> 'w \<Rightarrow> bytes
     \<Rightarrow> (string \<rightharpoonup> string) \<Rightarrow> 's \<Rightarrow> (error + string) \<times> 's" where
  "putVerify S d bucket object tempObj fileWriter written metadata st =
     (let newMD5Hex = hex_EncodeToString (md5_Sum written);
          md5Hex = (if metadata \<noteq> Map.empty
                    then (case metadata ''md5Sum'' of Some v \<Rightarrow> v | None \<Rightarrow> [])
                    else [])
      in if md5Hex \<noteq> [] \<and> newMD5Hex \<noteq> md5Hex then
           (case safeCloseAndRemove d fileWriter st of
              (Some err, st1) \<Rightarrow> (Inl (toObjectErr d err bucket object), st1)
            | (None, st1) \<Rightarrow> (Inl (BadDigest md5Hex newMD5Hex), st1))
         else
           (case Close S fileWriter st of
              (Some err, st1) \<Rightarrow>
                (case safeCloseAndRemove d fileWriter st1 of
                   (Some clErr, st2) \<Rightarrow> (Inl (toObjectErr d clErr bucket object), st2)
                 | (None, st2) \<Rightarrow> (Inl (toObjectErr d err bucket object), st2))
            | (None, st1) \<Rightarrow> putActivate S d bucket object tempObj newMD5Hex st1))"

text \<open>
  The beginning of \<^verbatim>\<open>PutObject\<close> (lines 287 to 330): the checks, the creation of the staged
  file and the copy. \<open>sz\<close> is the parameter \<^verbatim>\<open>size\<close>.
\<close>

definition PutObject ::
  "('s, 'w) StorageAPI \<Rightarrow> ('s, 'w) deps \<Rightarrow> string \<Rightarrow> string \<Rightarrow> int \<Rightarrow> reader
     \<Rightarrow> (string \<rightharpoonup> string) \<Rightarrow> 's \<Rightarrow> (error + string) \<times> 's" where
  "PutObject S d bucket object sz data metadata st =
     (if \<not> IsValidBucketName d bucket then (Inl (BucketNameInvalid bucket), st)
      else (case isBucketExist d bucket st of
        (False, st1) \<Rightarrow> (Inl (BucketNotFound bucket), st1)
      | (True, st1) \<Rightarrow>
      if \<not> IsValidObjectName d object then (Inl (ObjectNameInvalid bucket object), st1)
      else
        let tempObj = path_Join d [tmpMetaPrefix d, bucket, object] in
        (case CreateFile S (minioMetaBucket d) tempObj st1 of
           (Inl err, st2) \<Rightarrow> (Inl (toObjectErr d err bucket object), st2)
         | (Inr fileWriter, st2) \<Rightarrow>
             (case (if sz > 0 then io_CopyN S fileWriter data sz st2
                    else io_Copy S fileWriter data st2) of
                ((written, Some err), st3) \<Rightarrow>
                  (case safeCloseAndRemove d fileWriter st3 of
                     (Some clErr, st4) \<Rightarrow> (Inl (toObjectErr d clErr bucket object), st4)
                   | (None, st4) \<Rightarrow> (Inl (toObjectErr d err bucket object), st4))
              | ((written, None), st3) \<Rightarrow>
                  putVerify S d bucket object tempObj fileWriter written metadata st3))))"

section \<open>A backend in memory\<close>

text \<open>
  Modelled from the spec: the storage abstraction behind \<^verbatim>\<open>StorageAPI\<close> (section 2 and 6 of
  the spec: a single logical filesystem keyed by bucket and object path, with create,
  read-from-offset, stat, rename and delete), whose implementation is not in
  \<^verbatim>\<open>xl-objects.go\<close>. It is an instance of the interface on which the operations can be run:
  a map from (bucket, path) to contents, the buffers of the writers still open, the
  persisted format, a fault plan giving the error injected into the \<open>n\<close>-th backend
  call (\<open>None\<close> for no fault), and the log of the calls made.
\<close>

datatype call =
    CStatVol string
  | CStatFile string string
  | CReadFile string string int
  | CCreateFile string string
  | CWrite string string bytes
  | CClose string string
  | CCloseAndRemove string string
  | CRenameFile string string string string
  | CDeleteFile string string

record mem =
  vols :: "string list"
  files :: "string \<times> string \<rightharpoonup> bytes"
  staged :: "string \<times> string \<rightharpoonup> bytes"
  format :: "xlFormat option"
  faults :: "nat \<Rightarrow> error option"
  calls :: "call list"

definition mem_call :: "call \<Rightarrow> mem \<Rightarrow> error option \<times> mem" where
  "mem_call c st = (faults st (length (calls st)), st\<lparr>calls := calls st @ [c]\<rparr>)"

definition zeroFileInfo :: FileInfo where
  "zeroFileInfo = \<lparr>fi_Size = 0, fi_ModTime = 0, fi_MD5Sum = [], fi_IsDir = False\<rparr>"

definition mem_StatFile :: "string \<Rightarrow> string \<Rightarrow> mem \<Rightarrow> (FileInfo \<times> error option) \<times> mem" where
  "mem_StatFile bucket path st =
     (case mem_call (CStatFile bucket path) st of
        (Some err, st1) \<Rightarrow> ((zeroFileInfo, Some err), st1)
      | (None, st1) \<Rightarrow>
          (case files st1 (bucket, path) of
             None \<Rightarrow> ((zeroFileInfo, Some errFileNotFound), st1)
           | Some data \<Rightarrow> ((zeroFileInfo\<lparr>fi_Size := int (length data)\<rparr>, None), st1)))"

definition mem_ReadFile :: "string \<Rightarrow> string \<Rightarrow> int \<Rightarrow> mem \<Rightarrow> (error + stream) \<times> mem" where
  "mem_ReadFile bucket path offset st =
     (case mem_call (CReadFile bucket path offset) st of
        (Some err, st1) \<Rightarrow> (Inl err, st1)
      | (None, st1) \<Rightarrow>
          (case files st1 (bucket, path) of
             None \<Rightarrow> (Inl errFileNotFound, st1)
           | Some data \<Rightarrow>
               if offset < 0 then (Inl errUnexpected, st1)
               else (Inr (drop (nat offset) data, None), st1)))"

definition mem_CreateFile :: "string \<Rightarrow> string \<Rightarrow> mem \<Rightarrow> (error + string \<times> string) \<times> mem" where
  "mem_CreateFile bucket path st =
     (case mem_call (CCreateFile bucket path) st of
        (Some err, st1) \<Rightarrow> (Inl err, st1)
      | (None, st1) \<Rightarrow>
          (Inr (bucket, path), st1\<lparr>staged := (staged st1)((bucket, path) \<mapsto> [])\<rparr>))"

definition mem_Write :: "string \<times> string \<Rightarrow> bytes \<Rightarrow> mem \<Rightarrow> error option \<times> mem" where
  "mem_Write w data st =
     (case mem_call (CWrite (fst w) (snd w) data) st of
        (Some err, st1) \<Rightarrow> (Some err, st1)
      | (None, st1) \<Rightarrow>
          (case staged st1 w of
             None \<Rightarrow> (Some errUnexpected, st1)
           | Some buf \<Rightarrow> (None, st1\<lparr>staged := (staged st1)(w \<mapsto> buf @ data)\<rparr>)))"

definition mem_Close :: "string \<times> string \<Rightarrow> mem \<Rightarrow> error option \<times> mem" where
  "mem_Close w st =
     (case mem_call (CClose (fst w) (snd w)) st of
        (Some err, st1) \<Rightarrow> (Some err, st1)
      | (None, st1) \<Rightarrow>
          (case staged st1 w of
             None \<Rightarrow> (Some errUnexpected, st1)
           | Some buf \<Rightarrow>
               (None, st1\<lparr>staged := (staged st1)(w := None),
                          files := (files st1)(w \<mapsto> buf)\<rparr>)))"

definition mem_CloseAndRemove :: "string \<times> string \<Rightarrow> mem \<Rightarrow> error option \<times> mem" where
  "mem_CloseAndRemove w st =
     (case mem_call (CCloseAndRemove (fst w) (snd w)) st of
        (Some err, st1) \<Rightarrow> (Some err, st1)
      | (None, st1) \<Rightarrow> (None, st1\<lparr>staged := (staged st1)(w := None)\<rparr>))"

definition mem_RenameFile ::
  "string \<Rightarrow> string \<Rightarrow> string \<Rightarrow> string \<Rightarrow> mem \<Rightarrow> error option \<times> mem" where
  "mem_RenameFile srcBucket srcPath dstBucket dstPath st =
     (case mem_call (CRenameFile srcBucket srcPath dstBucket dstPath) st of
        (Some err, st1) \<Rightarrow> (Some err, st1)
      | (None, st1) \<Rightarrow>
          (case files st1 (srcBucket, srcPath) of
             None \<Rightarrow> (Some errFileNotFound, st1)
           | Some data \<Rightarrow>
               (None, st1\<lparr>files := ((files st1)((srcBucket, srcPath) := None))
                                       ((dstBucket, dstPath) \<mapsto> data)\<rparr>)))"

definition mem_DeleteFile :: "string \<Rightarrow> string \<Rightarrow> mem \<Rightarrow> error option \<times> mem" where
  "mem_DeleteFile bucket path st =
     (case mem_call (CDeleteFile bucket path) st of
        (Some err, st1) \<Rightarrow> (Some err, st1)
      | (None, st1) \<Rightarrow>
          (case files st1 (bucket, path) of
             None \<Rightarrow> (Some errFileNotFound, st1)
           | Some data \<Rightarrow> (None, st1\<lparr>files := (files st1)((bucket, path) := None)\<rparr>)))"

definition mem_storage :: "(mem, string \<times> string) StorageAPI" where
  "mem_storage =
     \<lparr>StatFile = mem_StatFile, ReadFile = mem_ReadFile, CreateFile = mem_CreateFile,
      RenameFile = mem_RenameFile, DeleteFile = mem_DeleteFile, Write = mem_Write,
      Close = mem_Close\<rparr>"

subsection \<open>The other parameters, for the backend in memory\<close>

text \<open>
  Stand-ins for the functions of the other files, enough to run the operations on the
  backend in memory: a bucket exists when it is among the volumes; names are valid when
  they are not empty (a bucket name has no slash, an object name does not start with one);
  paths are joined with a slash.
\<close>

definition mem_isBucketExist :: "string \<Rightarrow> mem \<Rightarrow> bool \<times> mem" where
  "mem_isBucketExist bucket st =
     (case mem_call (CStatVol bucket) st of
        (Some err, st1) \<Rightarrow> (False, st1)
      | (None, st1) \<Rightarrow> (bucket \<in> set (vols st1), st1))"

text \<open>The translation of backend errors: file-not-found becomes object-not-found.\<close>

definition mem_toObjectErr :: "error \<Rightarrow> string \<Rightarrow> string \<Rightarrow> error" where
  "mem_toObjectErr err bucket object =
     (if err = errFileNotFound then ObjectNotFound bucket object else err)"

definition mem_pathJoin :: "string \<Rightarrow> string \<Rightarrow> string" where
  "mem_pathJoin a b = a @ ''/'' @ b"

fun mem_path_Join :: "string list \<Rightarrow> string" where
  "mem_path_Join [] = []"
| "mem_path_Join [x] = x"
| "mem_path_Join (x # y # ys) = x @ ''/'' @ mem_path_Join (y # ys)"

definition mem_path_Dir :: "string \<Rightarrow> string" where
  "mem_path_Dir p =
     (if CHR ''/'' \<in> set p then rev (tl (dropWhile (\<lambda>c. c \<noteq> CHR ''/'') (rev p))) else ''.'')"

text \<open>Part file names: the part number in five decimal digits, then the multipart suffix.\<close>

definition mem_partNumToPartFileName :: "int \<Rightarrow> string" where
  "mem_partNumToPartFileName partNum =
     map (\<lambda>e. ''0123456789'' ! ((nat partNum div 10 ^ e) mod 10)) [4, 3, 2, 1, 0]
       @ multipartSuffix"

definition ascii_ToLower :: "string \<Rightarrow> string" where
  "ascii_ToLower s =
     map (\<lambda>c. if 65 \<le> (of_char c :: nat) \<and> (of_char c :: nat) \<le> 90
               then char_of ((of_char c :: nat) + 32) else c) s"

text \<open>
  Modelled from the spec: \<^verbatim>\<open>parentDirIsObject\<close>, whose source is in another file of the
  package. The spec (4.3): the pipeline checks that no existing object occupies any
  ancestor path segment of the destination. An object exists at a path when the path is
  a file or has a multipart descriptor.
\<close>

fun slashPrefixes :: "string \<Rightarrow> string \<Rightarrow> string list" where
  "slashPrefixes acc [] = []"
| "slashPrefixes acc (c # cs) =
     (if c = CHR ''/'' then rev acc # slashPrefixes (c # acc) cs
      else slashPrefixes (c # acc) cs)"

fun anyObjectAt :: "mem \<Rightarrow> string \<Rightarrow> string list \<Rightarrow> bool" where
  "anyObjectAt st bucket [] = False"
| "anyObjectAt st bucket (p # ps) =
     (if files st (bucket, p) \<noteq> None then True
      else if files st (bucket, mem_pathJoin p multipartMetaFile) \<noteq> None then True
      else anyObjectAt st bucket ps)"

definition mem_parentDirIsObject :: "string \<Rightarrow> string \<Rightarrow> mem \<Rightarrow> error option \<times> mem" where
  "mem_parentDirIsObject bucket parent st =
     (if parent = ''.'' then (None, st)
      else if anyObjectAt st bucket (parent # slashPrefixes [] parent)
      then (Some errFileAccessDenied, st)
      else (None, st))"

text \<open>
  The decoder of descriptors is given by a table of the descriptor files in use; the
  table of content types has two entries. \<open>disks\<close> is the backend that \<^verbatim>\<open>newXL\<close> opens.
\<close>

definition mem_json_Decode ::
  "(bytes \<times> MultipartObjectInfo) list \<Rightarrow> stream \<Rightarrow> error + MultipartObjectInfo" where
  "mem_json_Decode table r =
     (case snd r of
        Some err \<Rightarrow> Inl err
      | None \<Rightarrow>
          (case map_of table (fst r) of
             None \<Rightarrow> Inl (errors_New ''invalid character'')
           | Some info \<Rightarrow> Inr info))"

definition mem_deps ::
  "(bytes \<times> MultipartObjectInfo) list \<Rightarrow> mem \<Rightarrow> (mem, string \<times> string) deps" where
  "mem_deps table disks =
     \<lparr>IsValidBucketName = (\<lambda>bucket. bucket \<noteq> [] \<and> CHR ''/'' \<notin> set bucket),
      IsValidObjectName = (\<lambda>object. object \<noteq> [] \<and> hd object \<noteq> CHR ''/''),
      isBucketExist = mem_isBucketExist,
      toObjectErr = mem_toObjectErr,
      safeCloseAndRemove = mem_CloseAndRemove,
      parentDirIsObject = mem_parentDirIsObject,
      pathJoin = mem_pathJoin,
      partNumToPartFileName = mem_partNumToPartFileName,
      path_Join = mem_path_Join,
      path_Dir = mem_path_Dir,
      json_Decode = mem_json_Decode table,
      mimedb_DB = [''txt'' \<mapsto> ''text/plain'', ''json'' \<mapsto> ''application/json''],
      strings_ToLower = ascii_ToLower,
      minioMetaBucket = ''.minio'',
      tmpMetaPrefix = ''tmp'',
      newXL = (\<lambda>exportPaths. Inr disks),
      initObjectLayer = (\<lambda>st. st),
      checkFormat =
        (\<lambda>st. (case format st of None \<Rightarrow> Some errFileNotFound | Some xl \<Rightarrow> None, st)),
      saveFormatXL = (\<lambda>xl st. (None, st\<lparr>format := Some xl\<rparr>)),
      loadFormatXL =
        (\<lambda>st. (case format st of None \<Rightarrow> Inl errFileNotFound | Some xl \<Rightarrow> Inr xl, st))\<rparr>"

text \<open>An empty backend without faults, and the reader of a byte string in one chunk.\<close>

definition mem_empty :: mem where
  "mem_empty =
     \<lparr>vols = [], files = Map.empty, staged = Map.empty, format = None,
      faults = (\<lambda>n. None), calls = []\<rparr>"

definition bytesReader :: "bytes \<Rightarrow> reader" where
  "bytesReader data = \<lparr>chunks = [data], rerr = None\<rparr>"

section \<open>Evaluation of the operations on the backend in memory\<close>

lemmas mem_eval =
  mem_deps_def mem_empty_def mem_storage_def bytesReader_def mem_isBucketExist_def mem_call_def
  mem_CreateFile_def mem_Write_def mem_Close_def mem_CloseAndRemove_def mem_parentDirIsObject_def
  mem_path_Dir_def mem_StatFile_def mem_ReadFile_def mem_DeleteFile_def mem_RenameFile_def
  mem_pathJoin_def mem_toObjectErr_def mem_partNumToPartFileName_def mem_json_Decode_def
  zeroFileInfo_def multipartMetaFile_def multipartSuffix_def

lemmas ops_eval =
  PutObject_def putVerify_def putActivate_def io_CopyN_def io_Copy_def deleteObject_def
  DeleteObject_def GetObject_def GetObjectInfo_def getObjectInfo_def isMultipartObject_def
  getMultipartObjectInfo_def GetPartNumberOffset_def objectInfoOf_def contentTypeOf_def
  filepath_Ext_def strings_TrimPrefix_def ascii_ToLower_def

lemma upt_4: "[0..<4] = [0, 1, 2, 3]"
  by code_simp

lemma upt_8: "[0..<8] = [0, 1, 2, 3, 4, 5, 6, 7]"
  by code_simp

lemma md5_rounds_numeral:
  "md5_rounds M (numeral n) i h = md5_rounds M (pred_numeral n) (i + 1) (md5_step M i h)"
  by (simp only: numeral_eq_Suc [of n] md5_rounds.simps)

lemma replicate_numeral: "replicate (numeral n) x = x # replicate (pred_numeral n) x"
  by (simp only: numeral_eq_Suc [of n] replicate.simps)

lemmas md5_eval =
  md5_Sum_def md5_block_def md5_pad_def le_bytes_def upt_4 upt_8 md5_rounds_numeral
  replicate_numeral md5_F_def md5_g_def rotl32_def add32_def not32_def md5_K_def md5_S_def
  hex_EncodeToString_def hextable_def

lemma md5_hello_world:
  "hex_EncodeToString (md5_Sum ''hello world'') = ''5eb63bbbe01eeed093cb22bb8f5acdc3''"
  by (simp add: md5_eval)

lemma md5_empty_input:
  "hex_EncodeToString (md5_Sum []) = ''d41d8cd98f00b204e9800998ecf8427e''"
  by (simp add: md5_eval)

section \<open>Format validation: properties\<close>

lemma disksInOrder_eq:
  "index + length disks = length exportPaths \<Longrightarrow>
   disksInOrder exportPaths index disks = Inr (drop index exportPaths = disks)"
proof (induction disks arbitrary: index)
  case Nil
  then show ?case by simp
next
  case (Cons disk rest)
  then have lt: "index < length exportPaths" by simp
  then have split: "drop index exportPaths = exportPaths ! index # drop (Suc index) exportPaths"
    by (simp add: Cons_nth_drop_Suc)
  from Cons.prems have "Suc index + length rest = length exportPaths" by simp
  then have "disksInOrder exportPaths (Suc index) rest = Inr (drop (Suc index) exportPaths = rest)"
    by (rule Cons.IH)
  with lt split show ?case by auto
qed

lemma isValidFormat_eq:
  "isValidFormat d exportPaths st =
     (case loadFormatXL d st of
        (Inl err, st1) \<Rightarrow> (Inr False, st1)
      | (Inr xl, st1) \<Rightarrow> (Inr (Version xl = ''1'' \<and> Disks xl = exportPaths), st1))"
proof (cases "loadFormatXL d st")
  case (Pair r st1)
  show ?thesis
  proof (cases r)
    case (Inl err)
    with Pair show ?thesis by (simp add: isValidFormat_def)
  next
    case (Inr xl)
    have "length exportPaths = length (Disks xl) \<Longrightarrow>
          disksInOrder exportPaths 0 (Disks xl) = Inr (Disks xl = exportPaths)"
      using disksInOrder_eq [of 0 "Disks xl" exportPaths] by auto
    with Pair Inr show ?thesis by (auto simp: isValidFormat_def)
  qed
qed

lemma validateAndReturn_no_panic: "validateAndReturn d exportPaths st \<noteq> Inl p"
proof (cases "loadFormatXL d st")
  case (Pair r st1)
  then show ?thesis
    by (cases r) (auto simp: validateAndReturn_def isValidFormat_eq split: bool.splits)
qed

lemma newXLObjects_no_panic: "newXLObjects d exportPaths \<noteq> Inl p"
  by (auto simp: newXLObjects_def Let_def validateAndReturn_no_panic
           split: sum.splits prod.splits option.splits)

lemma newXLObjects_invalid:
  assumes "newXL d exportPaths = Inr storage"
    and "checkFormat d (initObjectLayer d storage) = (None, st2)"
    and "fst (isValidFormat d exportPaths st2) = Inr False"
  shows "newXLObjects d exportPaths =
           Inr (Inl (errors_New (''Command-line arguments '' @ fmt_strings exportPaths
                                 @ '' is not valid.'')))"
proof -
  obtain st3 where "isValidFormat d exportPaths st2 = (Inr False, st3)"
    using assms(3) by (cases "isValidFormat d exportPaths st2") auto
  then have "validateAndReturn d exportPaths st2 =
               Inr (Inl (errors_New (''Command-line arguments '' @ fmt_strings exportPaths
                                     @ '' is not valid.'')))"
    by (simp add: validateAndReturn_def)
  with assms(1,2) show ?thesis
    by (simp add: newXLObjects_def)
qed

text \<open>
  C5. \<^verbatim>\<open>isValidFormat\<close> returns true exactly when the descriptor loads, its version is
  \<open>''1''\<close>, it has as many disks as the supplied list and agrees with it at every index;
  it returns false, without a panic, in every other case, so for the same disks in any
  other order as well. \<^verbatim>\<open>newXLObjects\<close> never panics, and returns an error when the
  validation fails.
\<close>

theorem isValidFormat_positional:
  "fst (isValidFormat d exportPaths st) =
     Inr (\<exists>xl. fst (loadFormatXL d st) = Inr xl \<and> Version xl = ''1''
               \<and> length (Disks xl) = length exportPaths
               \<and> (\<forall>i<length exportPaths. Disks xl ! i = exportPaths ! i))
   \<and> (\<forall>xl. fst (loadFormatXL d st) = Inr xl \<and> exportPaths \<noteq> Disks xl
          \<longrightarrow> fst (isValidFormat d exportPaths st) = Inr False)
   \<and> (\<forall>p. newXLObjects d exportPaths \<noteq> Inl p)
   \<and> (\<forall>storage st2.
         newXL d exportPaths = Inr storage
         \<and> checkFormat d (initObjectLayer d storage) = (None, st2)
         \<and> fst (isValidFormat d exportPaths st2) = Inr False
         \<longrightarrow> newXLObjects d exportPaths =
               Inr (Inl (errors_New (''Command-line arguments '' @ fmt_strings exportPaths
                                     @ '' is not valid.''))))"
proof (intro conjI allI impI)
  show "fst (isValidFormat d exportPaths st) =
     Inr (\<exists>xl. fst (loadFormatXL d st) = Inr xl \<and> Version xl = ''1''
               \<and> length (Disks xl) = length exportPaths
               \<and> (\<forall>i<length exportPaths. Disks xl ! i = exportPaths ! i))"
  proof (cases "loadFormatXL d st")
    case (Pair r st1)
    show ?thesis
    proof (cases r)
      case (Inl err)
      with Pair show ?thesis by (simp add: isValidFormat_eq)
    next
      case (Inr xl)
      have "(Disks xl = exportPaths) =
            (length (Disks xl) = length exportPaths
             \<and> (\<forall>i<length exportPaths. Disks xl ! i = exportPaths ! i))"
        by (auto simp: list_eq_iff_nth_eq)
      with Pair Inr show ?thesis by (simp add: isValidFormat_eq)
    qed
  qed
next
  fix xl
  assume "fst (loadFormatXL d st) = Inr xl \<and> exportPaths \<noteq> Disks xl"
  then show "fst (isValidFormat d exportPaths st) = Inr False"
    by (cases "loadFormatXL d st") (auto simp: isValidFormat_eq)
next
  fix p
  show "newXLObjects d exportPaths \<noteq> Inl p"
    by (rule newXLObjects_no_panic)
next
  fix storage st2
  assume "newXL d exportPaths = Inr storage
         \<and> checkFormat d (initObjectLayer d storage) = (None, st2)
         \<and> fst (isValidFormat d exportPaths st2) = Inr False"
  then show "newXLObjects d exportPaths =
               Inr (Inl (errors_New (''Command-line arguments '' @ fmt_strings exportPaths
                                     @ '' is not valid.'')))"
    using newXLObjects_invalid [of d exportPaths storage st2] by simp
qed

text \<open>
  A backend formatted with the disks \<open>/d1\<close>, \<open>/d2\<close>: started with the same disks in
  the other order, validation fails and \<^verbatim>\<open>newXLObjects\<close> returns the error; in the same
  order it succeeds.
\<close>

theorem isValidFormat_positional_witness:
  "fst (loadFormatXL
          (mem_deps [] (mem_empty\<lparr>format := Some \<lparr>Version = ''1'', Disks = [''/d1'', ''/d2'']\<rparr>\<rparr>))
          (mem_empty\<lparr>format := Some \<lparr>Version = ''1'', Disks = [''/d1'', ''/d2'']\<rparr>\<rparr>))
     = Inr \<lparr>Version = ''1'', Disks = [''/d1'', ''/d2'']\<rparr>
   \<and> [''/d2'', ''/d1''] \<noteq> Disks \<lparr>Version = ''1'', Disks = [''/d1'', ''/d2'']\<rparr>
   \<and> fst (isValidFormat
            (mem_deps [] (mem_empty\<lparr>format := Some \<lparr>Version = ''1'', Disks = [''/d1'', ''/d2'']\<rparr>\<rparr>))
            [''/d2'', ''/d1'']
            (mem_empty\<lparr>format := Some \<lparr>Version = ''1'', Disks = [''/d1'', ''/d2'']\<rparr>\<rparr>))
     = Inr False
   \<and> newXLObjects
         (mem_deps [] (mem_empty\<lparr>format := Some \<lparr>Version = ''1'', Disks = [''/d1'', ''/d2'']\<rparr>\<rparr>))
         [''/d2'', ''/d1'']
     = Inr (Inl (errors_New ''Command-line arguments [/d2 /d1] is not valid.''))
   \<and> fst (isValidFormat
            (mem_deps [] (mem_empty\<lparr>format := Some \<lparr>Version = ''1'', Disks = [''/d1'', ''/d2'']\<rparr>\<rparr>))
            [''/d1'', ''/d2'']
            (mem_empty\<lparr>format := Some \<lparr>Version = ''1'', Disks = [''/d1'', ''/d2'']\<rparr>\<rparr>))
     = Inr True"
proof -
  let ?disks = "mem_empty\<lparr>format := Some \<lparr>Version = ''1'', Disks = [''/d1'', ''/d2'']\<rparr>\<rparr>"
  let ?d = "mem_deps [] ?disks"
  have load: "fst (loadFormatXL ?d ?disks) = Inr \<lparr>Version = ''1'', Disks = [''/d1'', ''/d2'']\<rparr>"
    by (simp add: mem_eval)
  have neq: "[''/d2'', ''/d1''] \<noteq> Disks \<lparr>Version = ''1'', Disks = [''/d1'', ''/d2'']\<rparr>"
    by simp
  have new: "newXL ?d [''/d2'', ''/d1''] = Inr ?disks"
    by (simp add: mem_eval)
  have chk: "checkFormat ?d (initObjectLayer ?d ?disks) = (None, ?disks)"
    by (simp add: mem_eval)
  note pos = isValidFormat_positional [of ?d "[''/d2'', ''/d1'']" ?disks]
  from pos load neq have bad: "fst (isValidFormat ?d [''/d2'', ''/d1''] ?disks) = Inr False"
    by (elim conjE allE [of _ "\<lparr>Version = ''1'', Disks = [''/d1'', ''/d2'']\<rparr>"]) simp
  from pos new chk bad
  have err: "newXLObjects ?d [''/d2'', ''/d1'']
               = Inr (Inl (errors_New (''Command-line arguments '' @ fmt_strings [''/d2'', ''/d1'']
                                       @ '' is not valid.'')))"
    by (elim conjE allE [of _ ?disks]) simp
  have good: "fst (isValidFormat ?d [''/d1'', ''/d2''] ?disks) = Inr True"
    using isValidFormat_positional [of ?d "[''/d1'', ''/d2'']" ?disks] load
    by (simp add: nth_Cons' mem_eval)
  from load neq bad err good show ?thesis
    by (simp add: fmt_strings_def)
qed

section \<open>Validation of bucket and object names\<close>

text \<open>
  C9, as amended. With an invalid bucket name each of the four operations returns
  \<^verbatim>\<open>BucketNameInvalid\<close> and leaves the backend state as it was, whatever the storage is:
  no backend call is made. With a valid bucket name and an invalid object name, the only
  step taken is the bucket existence check: the operation returns \<^verbatim>\<open>BucketNotFound\<close> when
  the bucket does not exist and \<^verbatim>\<open>ObjectNameInvalid\<close> when it does, in the state the check
  left, and no operation of the storage interface is called.
\<close>

theorem validation_first:
  "(\<not> IsValidBucketName d bucket \<longrightarrow>
      GetObject S d bucket object startOffset st = (Inl (BucketNameInvalid bucket), st)
    \<and> GetObjectInfo S d bucket object st = (Inl (BucketNameInvalid bucket), st)
    \<and> PutObject S d bucket object sz data metadata st = (Inl (BucketNameInvalid bucket), st)
    \<and> DeleteObject S d bucket object st = (Some (BucketNameInvalid bucket), st))
   \<and> (IsValidBucketName d bucket \<and> \<not> IsValidObjectName d object \<longrightarrow>
      (let exists = fst (isBucketExist d bucket st);
           st1 = snd (isBucketExist d bucket st);
           err = (if exists then ObjectNameInvalid bucket object else BucketNotFound bucket)
       in GetObject S d bucket object startOffset st = (Inl err, st1)
        \<and> GetObjectInfo S d bucket object st = (Inl err, st1)
        \<and> PutObject S d bucket object sz data metadata st = (Inl err, st1)
        \<and> DeleteObject S d bucket object st = (Some err, st1)))"
  by (cases "isBucketExist d bucket st")
     (simp add: GetObject_def GetObjectInfo_def PutObject_def DeleteObject_def Let_def)

theorem validation_first_witness:
  "\<not> IsValidBucketName (mem_deps [] mem_empty) ''a/b''
   \<and> PutObject mem_storage (mem_deps [] mem_empty) ''a/b'' ''o1'' 5 (bytesReader ''hello'')
        Map.empty mem_empty = (Inl (BucketNameInvalid ''a/b''), mem_empty)
   \<and> calls (snd (GetObject mem_storage (mem_deps [] mem_empty) ''a/b'' ''o1'' 0 mem_empty)) = []
   \<and> IsValidBucketName (mem_deps [] mem_empty) ''b1''
   \<and> \<not> IsValidObjectName (mem_deps [] mem_empty) ''/o1''
   \<and> fst (DeleteObject mem_storage (mem_deps [] mem_empty) ''b1'' ''/o1''
             (mem_empty\<lparr>vols := [''b1'']\<rparr>)) = Some (ObjectNameInvalid ''b1'' ''/o1'')"
proof -
  let ?d = "mem_deps [] mem_empty"
  have bad_bucket: "\<not> IsValidBucketName ?d ''a/b''"
    by (simp add: mem_deps_def)
  have good_bucket: "IsValidBucketName ?d ''b1''"
    by (simp add: mem_deps_def)
  have bad_object: "\<not> IsValidObjectName ?d ''/o1''"
    by (simp add: mem_deps_def)
  have exists: "fst (isBucketExist ?d ''b1'' (mem_empty\<lparr>vols := [''b1'']\<rparr>))"
    by (simp add: mem_eval)
  from bad_bucket
  have put: "PutObject mem_storage ?d ''a/b'' ''o1'' 5 (bytesReader ''hello'') Map.empty mem_empty
               = (Inl (BucketNameInvalid ''a/b''), mem_empty)"
    and get: "GetObject mem_storage ?d ''a/b'' ''o1'' 0 mem_empty
               = (Inl (BucketNameInvalid ''a/b''), mem_empty)"
    using validation_first [where d = ?d and bucket = "''a/b''" and S = mem_storage
            and object = "''o1''" and startOffset = 0 and st = mem_empty and sz = 5
            and data = "bytesReader ''hello''" and metadata = Map.empty]
    by simp_all
  from good_bucket bad_object exists
  have del: "fst (DeleteObject mem_storage ?d ''b1'' ''/o1'' (mem_empty\<lparr>vols := [''b1'']\<rparr>))
               = Some (ObjectNameInvalid ''b1'' ''/o1'')"
    using validation_first [where d = ?d and bucket = "''b1''" and S = mem_storage
            and object = "''/o1''" and startOffset = 0
            and st = "mem_empty\<lparr>vols := [''b1'']\<rparr>" and sz = 5
            and data = "bytesReader ''hello''" and metadata = Map.empty]
    by (simp add: Let_def)
  from get have log: "calls (snd (GetObject mem_storage ?d ''a/b'' ''o1'' 0 mem_empty)) = []"
    by (simp add: mem_empty_def)
  from bad_bucket put log good_bucket bad_object del show ?thesis
    by simp
qed

text \<open>
  C9 as stated fails: with a valid name of a bucket that does not exist and an invalid
  object name, \<^verbatim>\<open>GetObject\<close> returns \<^verbatim>\<open>BucketNotFound\<close>, not \<^verbatim>\<open>ObjectNameInvalid\<close>; and
  whether the bucket exists or not, the existence check has called the backend before
  the object name is looked at.
\<close>

theorem validation_counterexample:
  "IsValidBucketName (mem_deps [] mem_empty) ''b1''
   \<and> \<not> IsValidObjectName (mem_deps [] mem_empty) ''/o1''
   \<and> fst (GetObject mem_storage (mem_deps [] mem_empty) ''b1'' ''/o1'' 0 mem_empty)
       = Inl (BucketNotFound ''b1'')
   \<and> calls (snd (GetObject mem_storage (mem_deps [] mem_empty) ''b1'' ''/o1'' 0 mem_empty))
       = [CStatVol ''b1'']
   \<and> fst (GetObject mem_storage (mem_deps [] mem_empty) ''b1'' ''/o1'' 0
            (mem_empty\<lparr>vols := [''b1'']\<rparr>))
       = Inl (ObjectNameInvalid ''b1'' ''/o1'')
   \<and> calls (snd (GetObject mem_storage (mem_deps [] mem_empty) ''b1'' ''/o1'' 0
                   (mem_empty\<lparr>vols := [''b1'']\<rparr>)))
       = [CStatVol ''b1'']"
  by (simp add: GetObject_def mem_deps_def mem_empty_def mem_isBucketExist_def mem_call_def)

section \<open>\<^verbatim>\<open>PutObject\<close>: properties\<close>









































lemma PutObject_staged:
  assumes "IsValidBucketName d bucket"
    and "isBucketExist d bucket st = (True, st1)"
    and "IsValidObjectName d object"
    and "CreateFile S (minioMetaBucket d) (path_Join d [tmpMetaPrefix d, bucket, object]) st1
           = (Inr fileWriter, st2)"
    and "(if 0 < sz then io_CopyN S fileWriter data sz st2 else io_Copy S fileWriter data st2)
           = ((written, None), st3)"
  shows "PutObject S d bucket object sz data metadata st
           = putVerify S d bucket object (path_Join d [tmpMetaPrefix d, bucket, object])
               fileWriter written metadata st3"
  using assms by (simp add: PutObject_def Let_def)



text \<open>
  C6, as amended. When \<^verbatim>\<open>PutObject\<close> reaches the digest comparison (valid names, existing
  bucket, staged file created, copy without error) and the metadata carries a non-empty
  \<open>md5Sum\<close> that differs from the hash of the bytes copied, it calls
  \<^verbatim>\<open>safeCloseAndRemove\<close> on the staged writer and returns in the state that call left: no
  close, delete or rename follows, so the destination is not touched. The error is
  \<^verbatim>\<open>BadDigest\<close> with the expected and the computed hash when the cleanup reports no error,
  and the translated cleanup error when it does.
\<close>

theorem PutObject_digest_mismatch:
  assumes "IsValidBucketName d bucket"
    and "isBucketExist d bucket st = (True, st1)"
    and "IsValidObjectName d object"
    and "CreateFile S (minioMetaBucket d) (path_Join d [tmpMetaPrefix d, bucket, object]) st1
           = (Inr fileWriter, st2)"
    and "(if 0 < sz then io_CopyN S fileWriter data sz st2 else io_Copy S fileWriter data st2)
           = ((written, None), st3)"
    and "metadata ''md5Sum'' = Some md5Hex"
    and "md5Hex \<noteq> []"
    and "md5Hex \<noteq> hex_EncodeToString (md5_Sum written)"
    and "safeCloseAndRemove d fileWriter st3 = (clErr, st4)"
  shows "PutObject S d bucket object sz data metadata st
           = (Inl (case clErr of
                     None \<Rightarrow> BadDigest md5Hex (hex_EncodeToString (md5_Sum written))
                   | Some err \<Rightarrow> toObjectErr d err bucket object), st4)"
proof -
  have "PutObject S d bucket object sz data metadata st
          = putVerify S d bucket object (path_Join d [tmpMetaPrefix d, bucket, object])
              fileWriter written metadata st3"
    using assms(1-5) by (rule PutObject_staged)
  moreover have "metadata \<noteq> Map.empty"
    using assms(6) by auto
  ultimately show ?thesis
    using assms(6-9) by (auto simp: putVerify_def Let_def split: option.splits)
qed

text \<open>
  On the backend in memory, with an object already at the destination: the put with a
  wrong \<open>md5Sum\<close> fails with \<^verbatim>\<open>BadDigest\<close>, the old object is unchanged and no staged
  file or open writer is left.
\<close>

theorem PutObject_digest_mismatch_witness:
  "fst (PutObject mem_storage (mem_deps [] mem_empty) ''b1'' ''o1'' 11
          (bytesReader ''hello world'') [''md5Sum'' \<mapsto> ''0123'']
          (mem_empty\<lparr>vols := [''b1''], files := [(''b1'', ''o1'') \<mapsto> ''old'']\<rparr>))
     = Inl (BadDigest ''0123'' ''5eb63bbbe01eeed093cb22bb8f5acdc3'')
   \<and> files (snd (PutObject mem_storage (mem_deps [] mem_empty) ''b1'' ''o1'' 11
                    (bytesReader ''hello world'') [''md5Sum'' \<mapsto> ''0123'']
                    (mem_empty\<lparr>vols := [''b1''], files := [(''b1'', ''o1'') \<mapsto> ''old'']\<rparr>)))
       = [(''b1'', ''o1'') \<mapsto> ''old'']
   \<and> staged (snd (PutObject mem_storage (mem_deps [] mem_empty) ''b1'' ''o1'' 11
                     (bytesReader ''hello world'') [''md5Sum'' \<mapsto> ''0123'']
                     (mem_empty\<lparr>vols := [''b1''], files := [(''b1'', ''o1'') \<mapsto> ''old'']\<rparr>)))
       = Map.empty"
proof -
  let ?d = "mem_deps [] mem_empty"
  let ?st = "mem_empty\<lparr>vols := [''b1''], files := [(''b1'', ''o1'') \<mapsto> ''old'']\<rparr>"
  let ?md = "[''md5Sum'' \<mapsto> ''0123''] :: string \<rightharpoonup> string"
  let ?data = "bytesReader ''hello world''"
  let ?tmp = "path_Join ?d [tmpMetaPrefix ?d, ''b1'', ''o1'']"
  let ?w = "(''.minio'', ''tmp/b1/o1'')"
  let ?st1 = "snd (isBucketExist ?d ''b1'' ?st)"
  let ?st2 = "snd (CreateFile mem_storage (minioMetaBucket ?d) ?tmp ?st1)"
  let ?st3 = "snd (io_CopyN mem_storage ?w ?data 11 ?st2)"
  let ?st4 = "snd (safeCloseAndRemove ?d ?w ?st3)"
  have h1: "IsValidBucketName ?d ''b1''"
    by (simp add: mem_eval)
  have h2: "isBucketExist ?d ''b1'' ?st = (True, ?st1)"
    by (simp add: prod_eq_iff mem_eval)
  have h3: "IsValidObjectName ?d ''o1''"
    by (simp add: mem_eval)
  have h4: "CreateFile mem_storage (minioMetaBucket ?d) ?tmp ?st1 = (Inr ?w, ?st2)"
    by (simp add: prod_eq_iff mem_eval)
  have h5: "(if (0::int) < 11 then io_CopyN mem_storage ?w ?data 11 ?st2
             else io_Copy mem_storage ?w ?data ?st2) = ((''hello world'', None), ?st3)"
    by (simp add: prod_eq_iff ops_eval mem_eval)
  have h6: "?md ''md5Sum'' = Some ''0123''"
    by simp
  have h7: "''0123'' \<noteq> ([] :: string)"
    by simp
  have h8: "''0123'' \<noteq> hex_EncodeToString (md5_Sum ''hello world'')"
    by (simp add: md5_hello_world)
  have h9: "safeCloseAndRemove ?d ?w ?st3 = (None, ?st4)"
    by (simp add: prod_eq_iff ops_eval mem_eval)
  have run: "PutObject mem_storage ?d ''b1'' ''o1'' 11 ?data ?md ?st
          = (Inl (case None of
                    None \<Rightarrow> BadDigest ''0123'' (hex_EncodeToString (md5_Sum ''hello world''))
                  | Some err \<Rightarrow> toObjectErr ?d err ''b1'' ''o1''), ?st4)"
    by (rule PutObject_digest_mismatch [where metadata = ?md and clErr = None,
               OF h1 h2 h3 h4 h5 h6 h7 h8 h9])
  have f: "files ?st4 = [(''b1'', ''o1'') \<mapsto> ''old'']"
    by (simp add: ops_eval mem_eval)
  have s: "staged ?st4 = Map.empty"
    by (simp add: ops_eval mem_eval)
  from run f s show ?thesis
    by (simp add: md5_hello_world)
qed

text \<open>
  C6 as stated fails when the cleanup fails: with a fault injected into the fourth backend
  call, the removal of the staged file, the put with a wrong \<open>md5Sum\<close> returns the
  cleanup error, not \<^verbatim>\<open>BadDigest\<close>, and the staged data is still there.
\<close>

theorem PutObject_digest_mismatch_counterexample:
  "[''md5Sum'' \<mapsto> ''0123''] ''md5Sum'' = Some ''0123''
   \<and> ''0123'' \<noteq> hex_EncodeToString (md5_Sum ''hello world'')
   \<and> fst (PutObject mem_storage (mem_deps [] mem_empty) ''b1'' ''o1'' 11
            (bytesReader ''hello world'') [''md5Sum'' \<mapsto> ''0123'']
            (mem_empty\<lparr>vols := [''b1''],
                        faults := (\<lambda>n. if n = 3 then Some errDiskNotFound else None)\<rparr>))
       = Inl errDiskNotFound
   \<and> staged (snd (PutObject mem_storage (mem_deps [] mem_empty) ''b1'' ''o1'' 11
                     (bytesReader ''hello world'') [''md5Sum'' \<mapsto> ''0123'']
                     (mem_empty\<lparr>vols := [''b1''],
                                 faults := (\<lambda>n. if n = 3 then Some errDiskNotFound else None)\<rparr>)))
        (''.minio'', ''tmp/b1/o1'') = Some ''hello world''
   \<and> calls (snd (PutObject mem_storage (mem_deps [] mem_empty) ''b1'' ''o1'' 11
                    (bytesReader ''hello world'') [''md5Sum'' \<mapsto> ''0123'']
                    (mem_empty\<lparr>vols := [''b1''],
                                faults := (\<lambda>n. if n = 3 then Some errDiskNotFound else None)\<rparr>)))
       = [CStatVol ''b1'', CCreateFile ''.minio'' ''tmp/b1/o1'',
          CWrite ''.minio'' ''tmp/b1/o1'' ''hello world'',
          CCloseAndRemove ''.minio'' ''tmp/b1/o1'']"
  by (simp add: ops_eval mem_eval Let_def md5_hello_world)

text \<open>
  C1 asks that \<^verbatim>\<open>PutObject\<close>, whenever it returns an error, has removed the staged file.
  The code does that after a failed copy, a digest mismatch, a failed close and a failed
  rename, but it returns without any cleanup when the check of the parent directories
  fails (line 356) and when the deletion of the object already there fails (line 365).
  On the backend in memory: a put to \<open>a/b\<close> where \<open>a\<close> is an object, and a put over an
  object whose deletion fails (a fault in the sixth backend call), both return an error
  and leave the staged file \<open>tmp/b1/...\<close> in the internal bucket; when instead the rename
  fails (a fault in the seventh call) the staged file is removed.
\<close>

theorem PutObject_leaves_staged_file:
  "fst (PutObject mem_storage (mem_deps [] mem_empty) ''b1'' ''a/b'' 5 (bytesReader ''hello'')
          Map.empty (mem_empty\<lparr>vols := [''b1''], files := [(''b1'', ''a'') \<mapsto> ''x'']\<rparr>))
     = Inl errFileAccessDenied
   \<and> files (snd (PutObject mem_storage (mem_deps [] mem_empty) ''b1'' ''a/b'' 5
                    (bytesReader ''hello'') Map.empty
                    (mem_empty\<lparr>vols := [''b1''], files := [(''b1'', ''a'') \<mapsto> ''x'']\<rparr>)))
        (''.minio'', ''tmp/b1/a/b'') = Some ''hello''
   \<and> fst (PutObject mem_storage (mem_deps [] mem_empty) ''b1'' ''o1'' 5 (bytesReader ''hello'')
          Map.empty
          (mem_empty\<lparr>vols := [''b1''], files := [(''b1'', ''o1'') \<mapsto> ''old''],
                      faults := (\<lambda>n. if n = 5 then Some errDiskNotFound else None)\<rparr>))
     = Inl errDiskNotFound
   \<and> files (snd (PutObject mem_storage (mem_deps [] mem_empty) ''b1'' ''o1'' 5
                    (bytesReader ''hello'') Map.empty
                    (mem_empty\<lparr>vols := [''b1''], files := [(''b1'', ''o1'') \<mapsto> ''old''],
                                faults := (\<lambda>n. if n = 5 then Some errDiskNotFound else None)\<rparr>)))
        (''.minio'', ''tmp/b1/o1'') = Some ''hello''
   \<and> fst (PutObject mem_storage (mem_deps [] mem_empty) ''b1'' ''o1'' 5 (bytesReader ''hello'')
          Map.empty
          (mem_empty\<lparr>vols := [''b1''], files := [(''b1'', ''o1'') \<mapsto> ''old''],
                      faults := (\<lambda>n. if n = 6 then Some errDiskNotFound else None)\<rparr>))
     = Inl errDiskNotFound
   \<and> files (snd (PutObject mem_storage (mem_deps [] mem_empty) ''b1'' ''o1'' 5
                    (bytesReader ''hello'') Map.empty
                    (mem_empty\<lparr>vols := [''b1''], files := [(''b1'', ''o1'') \<mapsto> ''old''],
                                faults := (\<lambda>n. if n = 6 then Some errDiskNotFound else None)\<rparr>)))
        (''.minio'', ''tmp/b1/o1'') = None"
  by (simp add: ops_eval mem_eval Let_def)

section \<open>\<^verbatim>\<open>GetObjectInfo\<close>: properties\<close>

lemma extScan_empty_iff:
  "extScan xs acc = [] \<longleftrightarrow> CHR ''.'' \<notin> set (takeWhile (\<lambda>c. c \<noteq> CHR ''/'') xs)"
  by (induction xs arbitrary: acc) auto

lemma extScan_shape:
  "extScan xs acc \<noteq> [] \<Longrightarrow>
     \<exists>ys zs. xs = ys @ CHR ''.'' # zs \<and> extScan xs acc = CHR ''.'' # rev ys @ acc
            \<and> CHR ''.'' \<notin> set ys \<and> CHR ''/'' \<notin> set ys"
proof (induction xs arbitrary: acc)
  case Nil
  then show ?case by simp
next
  case (Cons c cs)
  show ?case
  proof (cases "c = CHR ''.''")
    case True
    then have "c # cs = [] @ CHR ''.'' # cs \<and> extScan (c # cs) acc = CHR ''.'' # rev [] @ acc"
      by simp
    then show ?thesis by (metis empty_iff list.set(1))
  next
    case False
    with Cons.prems have slash: "c \<noteq> CHR ''/''" and rest: "extScan cs (c # acc) \<noteq> []"
      by (auto split: if_splits)
    from Cons.IH [OF rest] obtain ys zs where
      "cs = ys @ CHR ''.'' # zs" "extScan cs (c # acc) = CHR ''.'' # rev ys @ c # acc"
      "CHR ''.'' \<notin> set ys" "CHR ''/'' \<notin> set ys"
      by blast
    with False slash have
      "c # cs = (c # ys) @ CHR ''.'' # zs \<and> extScan (c # cs) acc = CHR ''.'' # rev (c # ys) @ acc
       \<and> CHR ''.'' \<notin> set (c # ys) \<and> CHR ''/'' \<notin> set (c # ys)"
      by simp
    then show ?thesis by blast
  qed
qed

lemma filepath_Ext_shape:
  assumes "filepath_Ext object \<noteq> []"
  shows "\<exists>base ext. object = base @ CHR ''.'' # ext \<and> filepath_Ext object = CHR ''.'' # ext
           \<and> CHR ''.'' \<notin> set ext \<and> CHR ''/'' \<notin> set ext"
proof -
  from assms have "extScan (rev object) [] \<noteq> []"
    by (simp add: filepath_Ext_def)
  from extScan_shape [OF this] obtain ys zs where
    r: "rev object = ys @ CHR ''.'' # zs" and e: "extScan (rev object) [] = CHR ''.'' # rev ys @ []"
    and n: "CHR ''.'' \<notin> set ys" "CHR ''/'' \<notin> set ys"
    by blast
  from r have "object = rev zs @ CHR ''.'' # rev ys"
    by (metis rev_append rev.simps(2) rev_rev_ident append.assoc append_Cons append_Nil)
  with e n show ?thesis
    by (auto simp: filepath_Ext_def)
qed

lemma contentTypeOf_eq:
  "contentTypeOf d object =
     (case (if filepath_Ext object = [] then None
            else mimedb_DB d (strings_ToLower d (tl (filepath_Ext object)))) of
        None \<Rightarrow> ''application/octet-stream''
      | Some content \<Rightarrow> content)"
proof (cases "filepath_Ext object = []")
  case True
  then show ?thesis by (simp add: contentTypeOf_def)
next
  case False
  from filepath_Ext_shape [OF this] obtain ext where "filepath_Ext object = CHR ''.'' # ext"
    by blast
  then show ?thesis
    by (simp add: contentTypeOf_def strings_TrimPrefix_def)
qed

text \<open>
  C8. \<^verbatim>\<open>getObjectInfo\<close> first stats the object as a file. When the stat succeeds the
  result is built from it, and when it fails with another error than file-not-found that
  error is returned: in both cases nothing else is called. When it fails with
  file-not-found the multipart descriptor is loaded, and size, modification time and
  content hash come from it; an error of that load, file-not-found when the descriptor
  does not exist either, is returned, and \<^verbatim>\<open>GetObjectInfo\<close> passes it through
  \<^verbatim>\<open>toObjectErr\<close>. The content type is the entry of the MIME table for the lower-cased
  extension without its dot, and \<open>application/octet-stream\<close> when the name has no extension
  (no dot in its last path element) or the table has no entry; the extension is the
  suffix of the name from the last dot of the last path element.
\<close>

theorem getObjectInfo_resolution:
  "(\<forall>fi st1. StatFile S bucket object st = ((fi, None), st1) \<longrightarrow>
       getObjectInfo S d bucket object st =
         (Inr \<lparr>oi_Bucket = bucket, oi_Name = object, oi_ModTime = fi_ModTime fi,
               oi_Size = fi_Size fi, oi_IsDir = fi_IsDir fi,
               oi_ContentType = contentTypeOf d object, oi_MD5Sum = fi_MD5Sum fi\<rparr>, st1))
   \<and> (\<forall>fi err st1. StatFile S bucket object st = ((fi, Some err), st1) \<and> err \<noteq> errFileNotFound \<longrightarrow>
       getObjectInfo S d bucket object st = (Inl err, st1))
   \<and> (\<forall>fi st1 info st2.
         StatFile S bucket object st = ((fi, Some errFileNotFound), st1)
         \<and> getMultipartObjectInfo S d bucket object st1 = (Inr info, st2) \<longrightarrow>
       getObjectInfo S d bucket object st =
         (Inr \<lparr>oi_Bucket = bucket, oi_Name = object, oi_ModTime = mp_ModTime info,
               oi_Size = mp_Size info, oi_IsDir = fi_IsDir fi,
               oi_ContentType = contentTypeOf d object, oi_MD5Sum = mp_MD5Sum info\<rparr>, st2))
   \<and> (\<forall>fi st1 err st2.
         StatFile S bucket object st = ((fi, Some errFileNotFound), st1)
         \<and> ReadFile S bucket (pathJoin d object multipartMetaFile) 0 st1 = (Inl err, st2) \<longrightarrow>
       getObjectInfo S d bucket object st = (Inl err, st2))
   \<and> (\<forall>st1. IsValidBucketName d bucket \<and> isBucketExist d bucket st = (True, st1)
         \<and> IsValidObjectName d object \<longrightarrow>
       GetObjectInfo S d bucket object st =
         (case getObjectInfo S d bucket object st1 of
            (Inl err, st2) \<Rightarrow> (Inl (toObjectErr d err bucket object), st2)
          | (Inr info, st2) \<Rightarrow> (Inr info, st2)))
   \<and> contentTypeOf d object =
       (case (if filepath_Ext object = [] then None
              else mimedb_DB d (strings_ToLower d (tl (filepath_Ext object)))) of
          None \<Rightarrow> ''application/octet-stream''
        | Some content \<Rightarrow> content)
   \<and> (filepath_Ext object = [] \<longleftrightarrow>
        CHR ''.'' \<notin> set (takeWhile (\<lambda>c. c \<noteq> CHR ''/'') (rev object)))
   \<and> (filepath_Ext object \<noteq> [] \<longrightarrow>
        (\<exists>base ext. object = base @ CHR ''.'' # ext \<and> filepath_Ext object = CHR ''.'' # ext
           \<and> CHR ''.'' \<notin> set ext \<and> CHR ''/'' \<notin> set ext))"
proof -
  have a: "\<forall>fi st1. StatFile S bucket object st = ((fi, None), st1) \<longrightarrow>
       getObjectInfo S d bucket object st =
         (Inr \<lparr>oi_Bucket = bucket, oi_Name = object, oi_ModTime = fi_ModTime fi,
               oi_Size = fi_Size fi, oi_IsDir = fi_IsDir fi,
               oi_ContentType = contentTypeOf d object, oi_MD5Sum = fi_MD5Sum fi\<rparr>, st1)"
    by (simp add: getObjectInfo_def objectInfoOf_def)
  have b: "\<forall>fi err st1. StatFile S bucket object st = ((fi, Some err), st1) \<and> err \<noteq> errFileNotFound \<longrightarrow>
       getObjectInfo S d bucket object st = (Inl err, st1)"
    by (simp add: getObjectInfo_def)
  have c: "\<forall>fi st1 info st2.
         StatFile S bucket object st = ((fi, Some errFileNotFound), st1)
         \<and> getMultipartObjectInfo S d bucket object st1 = (Inr info, st2) \<longrightarrow>
       getObjectInfo S d bucket object st =
         (Inr \<lparr>oi_Bucket = bucket, oi_Name = object, oi_ModTime = mp_ModTime info,
               oi_Size = mp_Size info, oi_IsDir = fi_IsDir fi,
               oi_ContentType = contentTypeOf d object, oi_MD5Sum = mp_MD5Sum info\<rparr>, st2)"
    by (simp add: getObjectInfo_def objectInfoOf_def)
  have e: "\<forall>fi st1 err st2.
         StatFile S bucket object st = ((fi, Some errFileNotFound), st1)
         \<and> ReadFile S bucket (pathJoin d object multipartMetaFile) 0 st1 = (Inl err, st2) \<longrightarrow>
       getObjectInfo S d bucket object st = (Inl err, st2)"
    by (simp add: getObjectInfo_def getMultipartObjectInfo_def)
  have f: "\<forall>st1. IsValidBucketName d bucket \<and> isBucketExist d bucket st = (True, st1)
         \<and> IsValidObjectName d object \<longrightarrow>
       GetObjectInfo S d bucket object st =
         (case getObjectInfo S d bucket object st1 of
            (Inl err, st2) \<Rightarrow> (Inl (toObjectErr d err bucket object), st2)
          | (Inr info, st2) \<Rightarrow> (Inr info, st2))"
    by (simp add: GetObjectInfo_def)
  have g: "filepath_Ext object = [] \<longleftrightarrow>
        CHR ''.'' \<notin> set (takeWhile (\<lambda>c. c \<noteq> CHR ''/'') (rev object))"
    by (simp add: filepath_Ext_def extScan_empty_iff)
  have h: "filepath_Ext object \<noteq> [] \<longrightarrow>
        (\<exists>base ext. object = base @ CHR ''.'' # ext \<and> filepath_Ext object = CHR ''.'' # ext
           \<and> CHR ''.'' \<notin> set ext \<and> CHR ''/'' \<notin> set ext)"
    using filepath_Ext_shape by blast
  show ?thesis
    by (rule conjI [OF a conjI [OF b conjI [OF c conjI [OF e conjI [OF f
          conjI [OF contentTypeOf_eq conjI [OF g h]]]]]]])
qed

text \<open>
  On the backend in memory: a file \<open>docs/readme.TXT\<close> gets the content type of \<open>txt\<close>;
  the multipart object \<open>big\<close> gets size, time and hash from its descriptor and the
  generic content type; a name that is neither gets file-not-found; and a stat that fails
  with another error ends the call with that error.
\<close>

theorem getObjectInfo_resolution_witness:
  "fst (GetObjectInfo mem_storage
          (mem_deps [(''D'', \<lparr>Parts = [\<lparr>PartNumber = 1, part_Size = 5\<rparr>,
                                     \<lparr>PartNumber = 2, part_Size = 5\<rparr>],
                            mp_ModTime = 7, mp_Size = 10, mp_MD5Sum = ''abc''\<rparr>)] mem_empty)
          ''b1'' ''docs/readme.TXT''
          (mem_empty\<lparr>vols := [''b1''],
                      files := [(''b1'', ''docs/readme.TXT'') \<mapsto> ''hi'',
                                (''b1'', ''big/00000.minio.multipart'') \<mapsto> ''D'']\<rparr>))
     = Inr \<lparr>oi_Bucket = ''b1'', oi_Name = ''docs/readme.TXT'', oi_ModTime = 0, oi_Size = 2,
            oi_IsDir = False, oi_ContentType = ''text/plain'', oi_MD5Sum = []\<rparr>
   \<and> fst (getObjectInfo mem_storage
          (mem_deps [(''D'', \<lparr>Parts = [\<lparr>PartNumber = 1, part_Size = 5\<rparr>,
                                     \<lparr>PartNumber = 2, part_Size = 5\<rparr>],
                            mp_ModTime = 7, mp_Size = 10, mp_MD5Sum = ''abc''\<rparr>)] mem_empty)
          ''b1'' ''big''
          (mem_empty\<lparr>vols := [''b1''],
                      files := [(''b1'', ''docs/readme.TXT'') \<mapsto> ''hi'',
                                (''b1'', ''big/00000.minio.multipart'') \<mapsto> ''D'']\<rparr>))
     = Inr \<lparr>oi_Bucket = ''b1'', oi_Name = ''big'', oi_ModTime = 7, oi_Size = 10,
            oi_IsDir = False, oi_ContentType = ''application/octet-stream'', oi_MD5Sum = ''abc''\<rparr>
   \<and> fst (getObjectInfo mem_storage
          (mem_deps [(''D'', \<lparr>Parts = [\<lparr>PartNumber = 1, part_Size = 5\<rparr>,
                                     \<lparr>PartNumber = 2, part_Size = 5\<rparr>],
                            mp_ModTime = 7, mp_Size = 10, mp_MD5Sum = ''abc''\<rparr>)] mem_empty)
          ''b1'' ''none.txt''
          (mem_empty\<lparr>vols := [''b1''],
                      files := [(''b1'', ''docs/readme.TXT'') \<mapsto> ''hi'',
                                (''b1'', ''big/00000.minio.multipart'') \<mapsto> ''D'']\<rparr>))
     = Inl errFileNotFound
   \<and> fst (getObjectInfo mem_storage
          (mem_deps [(''D'', \<lparr>Parts = [\<lparr>PartNumber = 1, part_Size = 5\<rparr>,
                                     \<lparr>PartNumber = 2, part_Size = 5\<rparr>],
                            mp_ModTime = 7, mp_Size = 10, mp_MD5Sum = ''abc''\<rparr>)] mem_empty)
          ''b1'' ''big''
          (mem_empty\<lparr>vols := [''b1''],
                      files := [(''b1'', ''docs/readme.TXT'') \<mapsto> ''hi'',
                                (''b1'', ''big/00000.minio.multipart'') \<mapsto> ''D''],
                      faults := (\<lambda>n. if n = 0 then Some errDiskNotFound else None)\<rparr>))
     = Inl errDiskNotFound"
proof -
  let ?info = "\<lparr>Parts = [\<lparr>PartNumber = 1, part_Size = 5\<rparr>, \<lparr>PartNumber = 2, part_Size = 5\<rparr>],
                mp_ModTime = 7, mp_Size = 10, mp_MD5Sum = ''abc''\<rparr>"
  let ?d = "mem_deps [(''D'', ?info)] mem_empty"
  let ?st = "mem_empty\<lparr>vols := [''b1''],
                        files := [(''b1'', ''docs/readme.TXT'') \<mapsto> ''hi'',
                                  (''b1'', ''big/00000.minio.multipart'') \<mapsto> ''D'']\<rparr>"
  let ?stf = "?st\<lparr>faults := (\<lambda>n. if n = 0 then Some errDiskNotFound else None)\<rparr>"
  let ?st1 = "snd (isBucketExist ?d ''b1'' ?st)"
  text \<open>The simple object, through \<^verbatim>\<open>GetObjectInfo\<close>.\<close>
  let ?fi = "zeroFileInfo\<lparr>fi_Size := 2\<rparr>"
  let ?st2 = "snd (StatFile mem_storage ''b1'' ''docs/readme.TXT'' ?st1)"
  have v: "IsValidBucketName ?d ''b1'' \<and> isBucketExist ?d ''b1'' ?st = (True, ?st1)
           \<and> IsValidObjectName ?d ''docs/readme.TXT''"
    by (simp add: prod_eq_iff mem_eval)
  have s1: "StatFile mem_storage ''b1'' ''docs/readme.TXT'' ?st1 = ((?fi, None), ?st2)"
    by (simp add: prod_eq_iff mem_eval)
  note R1 = getObjectInfo_resolution [where S = mem_storage and d = ?d and bucket = "''b1''"
              and object = "''docs/readme.TXT''" and st = ?st1]
  note R0 = getObjectInfo_resolution [where S = mem_storage and d = ?d and bucket = "''b1''"
              and object = "''docs/readme.TXT''" and st = ?st]
  have ct: "contentTypeOf ?d ''docs/readme.TXT'' = ''text/plain''"
    by (simp add: ops_eval mem_eval char_of_def bit_0)
  have g1: "getObjectInfo mem_storage ?d ''b1'' ''docs/readme.TXT'' ?st1 =
         (Inr \<lparr>oi_Bucket = ''b1'', oi_Name = ''docs/readme.TXT'', oi_ModTime = fi_ModTime ?fi,
               oi_Size = fi_Size ?fi, oi_IsDir = fi_IsDir ?fi,
               oi_ContentType = contentTypeOf ?d ''docs/readme.TXT'', oi_MD5Sum = fi_MD5Sum ?fi\<rparr>,
          ?st2)"
    by (rule R1 [THEN conjunct1, rule_format, OF s1])
  have "GetObjectInfo mem_storage ?d ''b1'' ''docs/readme.TXT'' ?st =
         (case getObjectInfo mem_storage ?d ''b1'' ''docs/readme.TXT'' ?st1 of
            (Inl err, st2) \<Rightarrow> (Inl (toObjectErr ?d err ''b1'' ''docs/readme.TXT''), st2)
          | (Inr info, st2) \<Rightarrow> (Inr info, st2))"
    by (rule R0 [THEN conjunct2, THEN conjunct2, THEN conjunct2, THEN conjunct2, THEN conjunct1,
                 rule_format, OF v])
  with g1 ct have r1: "fst (GetObjectInfo mem_storage ?d ''b1'' ''docs/readme.TXT'' ?st)
     = Inr \<lparr>oi_Bucket = ''b1'', oi_Name = ''docs/readme.TXT'', oi_ModTime = 0, oi_Size = 2,
            oi_IsDir = False, oi_ContentType = ''text/plain'', oi_MD5Sum = []\<rparr>"
    by (simp add: zeroFileInfo_def)
  text \<open>The multipart object.\<close>
  let ?sb1 = "snd (StatFile mem_storage ''b1'' ''big'' ?st)"
  let ?sb2 = "snd (getMultipartObjectInfo mem_storage ?d ''b1'' ''big'' ?sb1)"
  have s2: "StatFile mem_storage ''b1'' ''big'' ?st = ((zeroFileInfo, Some errFileNotFound), ?sb1)
            \<and> getMultipartObjectInfo mem_storage ?d ''b1'' ''big'' ?sb1 = (Inr ?info, ?sb2)"
    by (simp add: prod_eq_iff ops_eval mem_eval)
  have ct2: "contentTypeOf ?d ''big'' = ''application/octet-stream''"
    by (simp add: ops_eval mem_eval)
  note R2 = getObjectInfo_resolution [where S = mem_storage and d = ?d and bucket = "''b1''"
              and object = "''big''" and st = ?st]
  have "getObjectInfo mem_storage ?d ''b1'' ''big'' ?st =
         (Inr \<lparr>oi_Bucket = ''b1'', oi_Name = ''big'', oi_ModTime = mp_ModTime ?info,
               oi_Size = mp_Size ?info, oi_IsDir = fi_IsDir zeroFileInfo,
               oi_ContentType = contentTypeOf ?d ''big'', oi_MD5Sum = mp_MD5Sum ?info\<rparr>, ?sb2)"
    by (rule R2 [THEN conjunct2, THEN conjunct2, THEN conjunct1, rule_format, OF s2])
  with ct2 have r2: "fst (getObjectInfo mem_storage ?d ''b1'' ''big'' ?st)
     = Inr \<lparr>oi_Bucket = ''b1'', oi_Name = ''big'', oi_ModTime = 7, oi_Size = 10,
            oi_IsDir = False, oi_ContentType = ''application/octet-stream'', oi_MD5Sum = ''abc''\<rparr>"
    by (simp add: zeroFileInfo_def)
  text \<open>Neither a file nor a descriptor.\<close>
  let ?sn1 = "snd (StatFile mem_storage ''b1'' ''none.txt'' ?st)"
  let ?sn2 = "snd (ReadFile mem_storage ''b1'' (pathJoin ?d ''none.txt'' multipartMetaFile) 0 ?sn1)"
  have s3: "StatFile mem_storage ''b1'' ''none.txt'' ?st
              = ((zeroFileInfo, Some errFileNotFound), ?sn1)
            \<and> ReadFile mem_storage ''b1'' (pathJoin ?d ''none.txt'' multipartMetaFile) 0 ?sn1
              = (Inl errFileNotFound, ?sn2)"
    by (simp add: prod_eq_iff ops_eval mem_eval)
  note R3 = getObjectInfo_resolution [where S = mem_storage and d = ?d and bucket = "''b1''"
              and object = "''none.txt''" and st = ?st]
  have "getObjectInfo mem_storage ?d ''b1'' ''none.txt'' ?st = (Inl errFileNotFound, ?sn2)"
    by (rule R3 [THEN conjunct2, THEN conjunct2, THEN conjunct2, THEN conjunct1,
                 rule_format, OF s3])
  then have r3: "fst (getObjectInfo mem_storage ?d ''b1'' ''none.txt'' ?st) = Inl errFileNotFound"
    by simp
  text \<open>A stat that fails with another error.\<close>
  let ?sf1 = "snd (StatFile mem_storage ''b1'' ''big'' ?stf)"
  have s4: "StatFile mem_storage ''b1'' ''big'' ?stf = ((zeroFileInfo, Some errDiskNotFound), ?sf1)
            \<and> errDiskNotFound \<noteq> errFileNotFound"
    by (simp add: prod_eq_iff ops_eval mem_eval)
  note R4 = getObjectInfo_resolution [where S = mem_storage and d = ?d and bucket = "''b1''"
              and object = "''big''" and st = ?stf]
  have "getObjectInfo mem_storage ?d ''b1'' ''big'' ?stf = (Inl errDiskNotFound, ?sf1)"
    by (rule R4 [THEN conjunct2, THEN conjunct1, rule_format, OF s4])
  then have r4: "fst (getObjectInfo mem_storage ?d ''b1'' ''big'' ?stf) = Inl errDiskNotFound"
    by simp
  show ?thesis
    by (rule conjI [OF r1 conjI [OF r2 conjI [OF r3 r4]]])
qed

section \<open>\<^verbatim>\<open>deleteObject\<close>: properties\<close>

lemma deleteParts_length: "length (fst (deleteParts S d bucket object parts st)) = length parts"
  by (induction parts arbitrary: st) (simp_all add: split_beta)

lemma deleteParts_nth:
  "i < length parts \<Longrightarrow>
     fst (deleteParts S d bucket object parts st) ! i =
       fst (DeleteFile S bucket
              (pathJoin d object (partNumToPartFileName d (PartNumber (parts ! i))))
              (snd (deleteParts S d bucket object (take i parts) st)))"
proof (induction parts arbitrary: st i)
  case Nil
  then show ?case by simp
next
  case (Cons part rest)
  show ?case
  proof (cases i)
    case 0
    then show ?thesis by (simp add: split_beta)
  next
    case (Suc j)
    with Cons.prems have "j < length rest" by simp
    from Cons.IH [OF this] Suc show ?thesis
      by (simp add: split_beta)
  qed
qed

lemma anyError_iff: "anyError errs \<longleftrightarrow> (\<exists>e\<in>set errs. e \<noteq> None)"
  by (induction errs) auto

lemma mem_deleteParts_calls:
  "calls (snd (deleteParts mem_storage d bucket object parts m)) =
     calls m @ map (\<lambda>p. CDeleteFile bucket
                           (pathJoin d object (partNumToPartFileName d (PartNumber p)))) parts"
proof (induction parts arbitrary: m)
  case Nil
  then show ?case by simp
next
  case (Cons part rest)
  have "calls (snd (DeleteFile mem_storage bucket path m)) = calls m @ [CDeleteFile bucket path]"
    for path
    by (simp add: mem_storage_def mem_DeleteFile_def mem_call_def split: option.splits)
  with Cons.IH show ?case
    by (simp add: split_beta)
qed

text \<open>
  C3. For a multipart object (the descriptor exists and loads), \<^verbatim>\<open>deleteObject\<close> makes one
  \<^verbatim>\<open>DeleteFile\<close> call per part, on the part's file, each in the state the earlier ones
  left, and collects one result per part; on the backend in memory, whose state logs the
  calls, these are the only calls of that phase. If every result is \<open>nil\<close> the descriptor
  file is deleted, and the result of that deletion is returned. If some result is an
  error, whatever it is, the operation returns \<^verbatim>\<open>errUnexpected\<close> in the state the part
  deletions left: no call deletes the descriptor.
\<close>

theorem deleteObject_multipart:
  assumes "isMultipartObject S d bucket object st = (Inr True, st1)"
    and "getMultipartObjectInfo S d bucket object st1 = (Inr info, st2)"
    and "deleteParts S d bucket object (Parts info) st2 = (errs, st3)"
  shows
    "length errs = length (Parts info)
     \<and> (\<forall>i<length (Parts info).
           errs ! i =
             fst (DeleteFile S bucket
                    (pathJoin d object (partNumToPartFileName d (PartNumber (Parts info ! i))))
                    (snd (deleteParts S d bucket object (take i (Parts info)) st2))))
     \<and> ((\<forall>e\<in>set errs. e = None) \<longrightarrow>
          deleteObject S d bucket object st
            = DeleteFile S bucket (pathJoin d object multipartMetaFile) st3)
     \<and> ((\<exists>e\<in>set errs. e \<noteq> None) \<longrightarrow>
          deleteObject S d bucket object st = (Some errUnexpected, st3))
     \<and> (\<forall>m. calls (snd (deleteParts mem_storage dm bucket object (Parts info) m)) =
              calls m @ map (\<lambda>p. CDeleteFile bucket
                                    (pathJoin dm object (partNumToPartFileName dm (PartNumber p))))
                          (Parts info))"
proof -
  have len: "length errs = length (Parts info)"
    using deleteParts_length [of S d bucket object "Parts info" st2] assms(3) by simp
  have nth: "\<forall>i<length (Parts info).
           errs ! i =
             fst (DeleteFile S bucket
                    (pathJoin d object (partNumToPartFileName d (PartNumber (Parts info ! i))))
                    (snd (deleteParts S d bucket object (take i (Parts info)) st2)))"
    using deleteParts_nth [of _ "Parts info" S d bucket object st2] assms(3) by simp
  have run: "deleteObject S d bucket object st =
               (if anyError errs then (Some errUnexpected, st3)
                else DeleteFile S bucket (pathJoin d object multipartMetaFile) st3)"
    using assms by (simp add: deleteObject_def)
  have ok: "(\<forall>e\<in>set errs. e = None) \<longrightarrow>
          deleteObject S d bucket object st
            = DeleteFile S bucket (pathJoin d object multipartMetaFile) st3"
    using run by (auto simp: anyError_iff)
  have bad: "(\<exists>e\<in>set errs. e \<noteq> None) \<longrightarrow>
          deleteObject S d bucket object st = (Some errUnexpected, st3)"
    using run by (auto simp: anyError_iff)
  have log: "\<forall>m. calls (snd (deleteParts mem_storage dm bucket object (Parts info) m)) =
              calls m @ map (\<lambda>p. CDeleteFile bucket
                                    (pathJoin dm object (partNumToPartFileName dm (PartNumber p))))
                          (Parts info)"
    by (simp add: mem_deleteParts_calls)
  show ?thesis
    by (rule conjI [OF len conjI [OF nth conjI [OF ok conjI [OF bad log]]]])
qed

text \<open>
  A multipart object of two parts on the backend in memory, with a fault in the fourth
  backend call, the deletion of the second part: \<^verbatim>\<open>deleteObject\<close> returns
  \<^verbatim>\<open>errUnexpected\<close>, the first part is gone, the descriptor and the second part are still
  there, and the calls made are the stat and the read of the descriptor and one deletion
  per part.
\<close>

theorem deleteObject_multipart_witness:
  "fst (deleteObject mem_storage
          (mem_deps [(''D'', \<lparr>Parts = [\<lparr>PartNumber = 1, part_Size = 5\<rparr>,
                                     \<lparr>PartNumber = 2, part_Size = 5\<rparr>],
                            mp_ModTime = 7, mp_Size = 10, mp_MD5Sum = ''abc''\<rparr>)] mem_empty)
          ''b1'' ''o1''
          (mem_empty\<lparr>vols := [''b1''],
                      files := [(''b1'', ''o1/00000.minio.multipart'') \<mapsto> ''D'',
                                (''b1'', ''o1/00001.minio.multipart'') \<mapsto> ''abcde'',
                                (''b1'', ''o1/00002.minio.multipart'') \<mapsto> ''fghij''],
                      faults := (\<lambda>n. if n = 3 then Some errDiskNotFound else None)\<rparr>))
     = Some errUnexpected
   \<and> files (snd (deleteObject mem_storage
          (mem_deps [(''D'', \<lparr>Parts = [\<lparr>PartNumber = 1, part_Size = 5\<rparr>,
                                     \<lparr>PartNumber = 2, part_Size = 5\<rparr>],
                            mp_ModTime = 7, mp_Size = 10, mp_MD5Sum = ''abc''\<rparr>)] mem_empty)
          ''b1'' ''o1''
          (mem_empty\<lparr>vols := [''b1''],
                      files := [(''b1'', ''o1/00000.minio.multipart'') \<mapsto> ''D'',
                                (''b1'', ''o1/00001.minio.multipart'') \<mapsto> ''abcde'',
                                (''b1'', ''o1/00002.minio.multipart'') \<mapsto> ''fghij''],
                      faults := (\<lambda>n. if n = 3 then Some errDiskNotFound else None)\<rparr>)))
       = [(''b1'', ''o1/00000.minio.multipart'') \<mapsto> ''D'',
          (''b1'', ''o1/00002.minio.multipart'') \<mapsto> ''fghij'']
   \<and> calls (snd (deleteObject mem_storage
          (mem_deps [(''D'', \<lparr>Parts = [\<lparr>PartNumber = 1, part_Size = 5\<rparr>,
                                     \<lparr>PartNumber = 2, part_Size = 5\<rparr>],
                            mp_ModTime = 7, mp_Size = 10, mp_MD5Sum = ''abc''\<rparr>)] mem_empty)
          ''b1'' ''o1''
          (mem_empty\<lparr>vols := [''b1''],
                      files := [(''b1'', ''o1/00000.minio.multipart'') \<mapsto> ''D'',
                                (''b1'', ''o1/00001.minio.multipart'') \<mapsto> ''abcde'',
                                (''b1'', ''o1/00002.minio.multipart'') \<mapsto> ''fghij''],
                      faults := (\<lambda>n. if n = 3 then Some errDiskNotFound else None)\<rparr>)))
       = [CStatFile ''b1'' ''o1/00000.minio.multipart'',
          CReadFile ''b1'' ''o1/00000.minio.multipart'' 0,
          CDeleteFile ''b1'' ''o1/00001.minio.multipart'',
          CDeleteFile ''b1'' ''o1/00002.minio.multipart'']"
proof -
  let ?info = "\<lparr>Parts = [\<lparr>PartNumber = 1, part_Size = 5\<rparr>, \<lparr>PartNumber = 2, part_Size = 5\<rparr>],
                mp_ModTime = 7, mp_Size = 10, mp_MD5Sum = ''abc''\<rparr>"
  let ?d = "mem_deps [(''D'', ?info)] mem_empty"
  let ?st = "mem_empty\<lparr>vols := [''b1''],
                      files := [(''b1'', ''o1/00000.minio.multipart'') \<mapsto> ''D'',
                                (''b1'', ''o1/00001.minio.multipart'') \<mapsto> ''abcde'',
                                (''b1'', ''o1/00002.minio.multipart'') \<mapsto> ''fghij''],
                      faults := (\<lambda>n. if n = 3 then Some errDiskNotFound else None)\<rparr>"
  let ?st1 = "snd (isMultipartObject mem_storage ?d ''b1'' ''o1'' ?st)"
  let ?st2 = "snd (getMultipartObjectInfo mem_storage ?d ''b1'' ''o1'' ?st1)"
  let ?st3 = "snd (deleteParts mem_storage ?d ''b1'' ''o1'' (Parts ?info) ?st2)"
  let ?errs = "[None, Some errDiskNotFound]"
  have h1: "isMultipartObject mem_storage ?d ''b1'' ''o1'' ?st = (Inr True, ?st1)"
    by (simp add: prod_eq_iff ops_eval mem_eval)
  have h2: "getMultipartObjectInfo mem_storage ?d ''b1'' ''o1'' ?st1 = (Inr ?info, ?st2)"
    by (simp add: prod_eq_iff ops_eval mem_eval)
  have h3: "deleteParts mem_storage ?d ''b1'' ''o1'' (Parts ?info) ?st2 = (?errs, ?st3)"
    by (simp add: prod_eq_iff ops_eval mem_eval)
  have bad: "\<exists>e\<in>set ?errs. e \<noteq> None"
    by simp
  note T = deleteObject_multipart [OF h1 h2 h3]
  have run: "deleteObject mem_storage ?d ''b1'' ''o1'' ?st = (Some errUnexpected, ?st3)"
    by (rule T [THEN conjunct2, THEN conjunct2, THEN conjunct2, THEN conjunct1, THEN mp, OF bad])
  have f: "files ?st3 = [(''b1'', ''o1/00000.minio.multipart'') \<mapsto> ''D'',
                         (''b1'', ''o1/00002.minio.multipart'') \<mapsto> ''fghij'']"
    by (simp add: ops_eval mem_eval fun_eq_iff)
  have c: "calls ?st3 = [CStatFile ''b1'' ''o1/00000.minio.multipart'',
          CReadFile ''b1'' ''o1/00000.minio.multipart'' 0,
          CDeleteFile ''b1'' ''o1/00001.minio.multipart'',
          CDeleteFile ''b1'' ''o1/00002.minio.multipart'']"
    by (simp add: ops_eval mem_eval)
  from run f c show ?thesis
    by simp
qed

lemma mem_DeleteFile_fields:
  "faults (snd (DeleteFile mem_storage b p m)) = faults m"
  "vols (snd (DeleteFile mem_storage b p m)) = vols m"
  "calls (snd (DeleteFile mem_storage b p m)) = calls m @ [CDeleteFile b p]"
  by (simp_all add: mem_storage_def mem_DeleteFile_def mem_call_def split: option.splits)

lemma mem_DeleteFile_present:
  assumes "faults m = (\<lambda>n. None)" and "files m (b, p) \<noteq> None"
  shows "fst (DeleteFile mem_storage b p m) = None"
    and "files (snd (DeleteFile mem_storage b p m)) = (files m)((b, p) := None)"
  using assms
  by (auto simp: mem_storage_def mem_DeleteFile_def mem_call_def split: option.splits)

lemma mem_DeleteFile_absent:
  assumes "faults m = (\<lambda>n. None)" and "files m (b, p) = None"
  shows "fst (DeleteFile mem_storage b p m) = Some errFileNotFound"
    and "files (snd (DeleteFile mem_storage b p m)) = files m"
  using assms
  by (auto simp: mem_storage_def mem_DeleteFile_def mem_call_def split: option.splits)

lemma mem_deleteParts_present:
  assumes "faults m = (\<lambda>n. None)"
    and "distinct (map (\<lambda>p. pathJoin d object (partNumToPartFileName d (PartNumber p))) parts)"
    and "\<forall>p\<in>set parts.
           files m (bucket, pathJoin d object (partNumToPartFileName d (PartNumber p))) \<noteq> None"
  shows "fst (deleteParts mem_storage d bucket object parts m) = replicate (length parts) None
     \<and> files (snd (deleteParts mem_storage d bucket object parts m)) =
         (\<lambda>k. if k \<in> (\<lambda>p. (bucket, pathJoin d object (partNumToPartFileName d (PartNumber p))))
                        ` set parts
              then None else files m k)
     \<and> faults (snd (deleteParts mem_storage d bucket object parts m)) = faults m
     \<and> vols (snd (deleteParts mem_storage d bucket object parts m)) = vols m"
  using assms
proof (induction parts arbitrary: m)
  case Nil
  then show ?case by simp
next
  case (Cons part rest)
  let ?pth = "\<lambda>p. pathJoin d object (partNumToPartFileName d (PartNumber p))"
  let ?m1 = "snd (DeleteFile mem_storage bucket (?pth part) m)"
  from Cons.prems have present: "files m (bucket, ?pth part) \<noteq> None" by simp
  have r1: "fst (DeleteFile mem_storage bucket (?pth part) m) = None"
    and f1: "files ?m1 = (files m)((bucket, ?pth part) := None)"
    using mem_DeleteFile_present [OF Cons.prems(1) present] by simp_all
  have q1: "faults ?m1 = (\<lambda>n. None)" and v1: "vols ?m1 = vols m"
    using Cons.prems(1) by (simp_all add: mem_DeleteFile_fields)
  have d1: "distinct (map ?pth rest)" using Cons.prems(2) by simp
  have ne: "\<forall>p\<in>set rest. ?pth p \<noteq> ?pth part"
    using Cons.prems(2) by (metis (mono_tags, lifting) distinct.simps(2) image_eqI list.simps(9) set_map)
  have p1: "\<forall>p\<in>set rest. files ?m1 (bucket, ?pth p) \<noteq> None"
    using Cons.prems(3) f1 ne by simp
  note IH = Cons.IH [OF q1 d1 p1]
  have step: "deleteParts mem_storage d bucket object (part # rest) m =
          (fst (DeleteFile mem_storage bucket (?pth part) m)
             # fst (deleteParts mem_storage d bucket object rest ?m1),
           snd (deleteParts mem_storage d bucket object rest ?m1))"
    by (simp add: split_beta)
  show ?case
    unfolding step using IH r1 f1 q1 v1 Cons.prems(1)
    by (auto simp: fun_eq_iff)
qed

lemma mem_deleteObject_simple:
  assumes "faults m = (\<lambda>n. None)"
    and "files m (bucket, pathJoin d object multipartMetaFile) = None"
  shows "fst (deleteObject mem_storage d bucket object m) =
           (if files m (bucket, object) = None then Some errFileNotFound else None)
     \<and> files (snd (deleteObject mem_storage d bucket object m)) = (files m)((bucket, object) := None)
     \<and> faults (snd (deleteObject mem_storage d bucket object m)) = faults m
     \<and> vols (snd (deleteObject mem_storage d bucket object m)) = vols m"
  using assms
  by (auto simp: deleteObject_def isMultipartObject_def mem_storage_def mem_StatFile_def
                 mem_DeleteFile_def mem_call_def fun_eq_iff
           split: option.splits)

lemma mem_deleteObject_multipart:
  assumes nf: "faults m = (\<lambda>n. None)"
    and meta: "files m (bucket, pathJoin d object multipartMetaFile) = Some raw"
    and dec: "json_Decode d (raw, None) = Inr info"
    and dist: "distinct (map (\<lambda>p. pathJoin d object (partNumToPartFileName d (PartNumber p)))
                           (Parts info))"
    and sep: "pathJoin d object multipartMetaFile
                \<notin> (\<lambda>p. pathJoin d object (partNumToPartFileName d (PartNumber p))) ` set (Parts info)"
    and pres: "\<forall>p\<in>set (Parts info).
                 files m (bucket, pathJoin d object (partNumToPartFileName d (PartNumber p))) \<noteq> None"
  shows "fst (deleteObject mem_storage d bucket object m) = None
     \<and> files (snd (deleteObject mem_storage d bucket object m)) =
         (\<lambda>k. if k \<in> (\<lambda>p. (bucket, pathJoin d object (partNumToPartFileName d (PartNumber p))))
                        ` set (Parts info)
                 \<or> k = (bucket, pathJoin d object multipartMetaFile)
              then None else files m k)
     \<and> faults (snd (deleteObject mem_storage d bucket object m)) = faults m
     \<and> vols (snd (deleteObject mem_storage d bucket object m)) = vols m"
proof -
  let ?meta = "pathJoin d object multipartMetaFile"
  let ?m1 = "m\<lparr>calls := calls m @ [CStatFile bucket ?meta]\<rparr>"
  let ?m2 = "?m1\<lparr>calls := calls ?m1 @ [CReadFile bucket ?meta 0]\<rparr>"
  let ?m3 = "snd (deleteParts mem_storage d bucket object (Parts info) ?m2)"
  have s1: "isMultipartObject mem_storage d bucket object m = (Inr True, ?m1)"
    using nf meta
    by (simp add: isMultipartObject_def mem_storage_def mem_StatFile_def mem_call_def)
  have s2: "getMultipartObjectInfo mem_storage d bucket object ?m1 = (Inr info, ?m2)"
    using nf meta dec
    by (simp add: getMultipartObjectInfo_def mem_storage_def mem_ReadFile_def mem_call_def)
  have nf2: "faults ?m2 = (\<lambda>n. None)" using nf by simp
  have pres2: "\<forall>p\<in>set (Parts info).
                 files ?m2 (bucket, pathJoin d object (partNumToPartFileName d (PartNumber p))) \<noteq> None"
    using pres by simp
  note P = mem_deleteParts_present [OF nf2 dist pres2]
  from P have e3: "fst (deleteParts mem_storage d bucket object (Parts info) ?m2)
                     = replicate (length (Parts info)) None"
    by (rule conjunct1)
  have "files ?m2 = files m" by simp
  with P [THEN conjunct2, THEN conjunct1] have f3: "files ?m3 =
         (\<lambda>k. if k \<in> (\<lambda>p. (bucket, pathJoin d object (partNumToPartFileName d (PartNumber p))))
                        ` set (Parts info)
              then None else files m k)"
    by (simp only:)
  from P [THEN conjunct2, THEN conjunct2, THEN conjunct1] nf have q3: "faults ?m3 = (\<lambda>n. None)"
    by simp
  from P [THEN conjunct2, THEN conjunct2, THEN conjunct2] have v3: "vols ?m3 = vols m"
    by simp
  have no_err: "\<not> anyError (fst (deleteParts mem_storage d bucket object (Parts info) ?m2))"
    unfolding e3 by (simp add: anyError_iff)
  have run: "deleteObject mem_storage d bucket object m = DeleteFile mem_storage bucket ?meta ?m3"
    using s1 s2 no_err by (simp add: deleteObject_def split_beta)
  have there: "files ?m3 (bucket, ?meta) \<noteq> None"
    using f3 sep meta by auto
  note D = mem_DeleteFile_present [OF q3 there]
  show ?thesis
    unfolding run using D f3 q3 v3 nf
    by (auto simp: fun_eq_iff mem_DeleteFile_fields)
qed

lemma mem_DeleteObject_eq:
  assumes "faults m = (\<lambda>n. None)"
    and "bucket \<in> set (vols m)"
    and "IsValidBucketName (mem_deps table disks) bucket"
    and "IsValidObjectName (mem_deps table disks) object"
  shows "fst (DeleteObject mem_storage (mem_deps table disks) bucket object m) =
           map_option (\<lambda>err. mem_toObjectErr err bucket object)
             (fst (deleteObject mem_storage (mem_deps table disks) bucket object
                     (m\<lparr>calls := calls m @ [CStatVol bucket]\<rparr>)))
     \<and> snd (DeleteObject mem_storage (mem_deps table disks) bucket object m) =
           snd (deleteObject mem_storage (mem_deps table disks) bucket object
                  (m\<lparr>calls := calls m @ [CStatVol bucket]\<rparr>))"
proof -
  have "isBucketExist (mem_deps table disks) bucket m
          = (True, m\<lparr>calls := calls m @ [CStatVol bucket]\<rparr>)"
    using assms(1,2) by (simp add: mem_deps_def mem_isBucketExist_def mem_call_def)
  moreover have "toObjectErr (mem_deps table disks) = mem_toObjectErr"
    by (simp add: mem_deps_def)
  ultimately show ?thesis
    using assms(3,4) by (simp add: DeleteObject_def split: prod.splits option.splits)
qed

lemma mem_DeleteObject_twice_simple:
  assumes nf: "faults m = (\<lambda>n. None)"
    and vol: "bucket \<in> set (vols m)"
    and vb: "IsValidBucketName (mem_deps table disks) bucket"
    and vo: "IsValidObjectName (mem_deps table disks) object"
    and obj: "files m (bucket, object) \<noteq> None"
    and meta: "files m (bucket, pathJoin (mem_deps table disks) object multipartMetaFile) = None"
  shows "fst (DeleteObject mem_storage (mem_deps table disks) bucket object m) = None
     \<and> fst (DeleteObject mem_storage (mem_deps table disks) bucket object
              (snd (DeleteObject mem_storage (mem_deps table disks) bucket object m)))
         = Some (ObjectNotFound bucket object)"
proof -
  let ?d = "mem_deps table disks"
  let ?m1 = "m\<lparr>calls := calls m @ [CStatVol bucket]\<rparr>"
  let ?m2 = "snd (deleteObject mem_storage ?d bucket object ?m1)"
  let ?m3 = "?m2\<lparr>calls := calls ?m2 @ [CStatVol bucket]\<rparr>"
  have nf1: "faults ?m1 = (\<lambda>n. None)" using nf by simp
  have meta1: "files ?m1 (bucket, pathJoin ?d object multipartMetaFile) = None" using meta by simp
  note A = mem_deleteObject_simple [OF nf1 meta1]
  from A obj have r1: "fst (deleteObject mem_storage ?d bucket object ?m1) = None" by simp
  from A have f2: "files ?m2 = (files m)((bucket, object) := None)" by simp
  from A nf have nf2: "faults ?m2 = (\<lambda>n. None)" by simp
  from A vol have vol2: "bucket \<in> set (vols ?m2)" by simp
  note E1 = mem_DeleteObject_eq [OF nf vol vb vo]
  from E1 r1 have first: "fst (DeleteObject mem_storage ?d bucket object m) = None" by simp
  from E1 have state: "snd (DeleteObject mem_storage ?d bucket object m) = ?m2" by simp
  have nf3: "faults ?m3 = (\<lambda>n. None)" using nf2 by simp
  have meta3: "files ?m3 (bucket, pathJoin ?d object multipartMetaFile) = None"
    using f2 meta by simp
  note B = mem_deleteObject_simple [OF nf3 meta3]
  from B f2 have r2: "fst (deleteObject mem_storage ?d bucket object ?m3) = Some errFileNotFound"
    by simp
  note E2 = mem_DeleteObject_eq [OF nf2 vol2 vb vo]
  from E2 r2 have "fst (DeleteObject mem_storage ?d bucket object ?m2)
                     = Some (ObjectNotFound bucket object)"
    by (simp add: mem_toObjectErr_def)
  with first state show ?thesis by simp
qed

lemma mem_DeleteObject_twice_multipart:
  assumes nf: "faults m = (\<lambda>n. None)"
    and vol: "bucket \<in> set (vols m)"
    and vb: "IsValidBucketName (mem_deps table disks) bucket"
    and vo: "IsValidObjectName (mem_deps table disks) object"
    and obj: "files m (bucket, object) = None"
    and meta: "files m (bucket, pathJoin (mem_deps table disks) object multipartMetaFile) = Some raw"
    and dec: "json_Decode (mem_deps table disks) (raw, None) = Inr info"
    and dist: "distinct (map (\<lambda>p. pathJoin (mem_deps table disks) object
                                   (partNumToPartFileName (mem_deps table disks) (PartNumber p)))
                           (Parts info))"
    and sep: "pathJoin (mem_deps table disks) object multipartMetaFile
                \<notin> (\<lambda>p. pathJoin (mem_deps table disks) object
                           (partNumToPartFileName (mem_deps table disks) (PartNumber p)))
                   ` set (Parts info)"
    and pres: "\<forall>p\<in>set (Parts info).
                 files m (bucket, pathJoin (mem_deps table disks) object
                                    (partNumToPartFileName (mem_deps table disks) (PartNumber p)))
                   \<noteq> None"
  shows "fst (DeleteObject mem_storage (mem_deps table disks) bucket object m) = None
     \<and> fst (DeleteObject mem_storage (mem_deps table disks) bucket object
              (snd (DeleteObject mem_storage (mem_deps table disks) bucket object m)))
         = Some (ObjectNotFound bucket object)"
proof -
  let ?d = "mem_deps table disks"
  let ?m1 = "m\<lparr>calls := calls m @ [CStatVol bucket]\<rparr>"
  let ?m2 = "snd (deleteObject mem_storage ?d bucket object ?m1)"
  let ?m3 = "?m2\<lparr>calls := calls ?m2 @ [CStatVol bucket]\<rparr>"
  have nf1: "faults ?m1 = (\<lambda>n. None)" using nf by simp
  have meta1: "files ?m1 (bucket, pathJoin ?d object multipartMetaFile) = Some raw"
    using meta by simp
  have pres1: "\<forall>p\<in>set (Parts info).
                 files ?m1 (bucket, pathJoin ?d object (partNumToPartFileName ?d (PartNumber p)))
                   \<noteq> None"
    using pres by simp
  note A = mem_deleteObject_multipart [OF nf1 meta1 dec dist sep pres1]
  from A have r1: "fst (deleteObject mem_storage ?d bucket object ?m1) = None"
    by (rule conjunct1)
  from A [THEN conjunct2, THEN conjunct1]
  have f2: "files ?m2 (bucket, pathJoin ?d object multipartMetaFile) = None"
    and o2: "files ?m2 (bucket, object) = None"
    using obj by simp_all
  from A [THEN conjunct2, THEN conjunct2, THEN conjunct1] nf
  have nf2: "faults ?m2 = (\<lambda>n. None)" by simp
  from A [THEN conjunct2, THEN conjunct2, THEN conjunct2] vol
  have vol2: "bucket \<in> set (vols ?m2)" by simp
  note E1 = mem_DeleteObject_eq [OF nf vol vb vo]
  from E1 r1 have first: "fst (DeleteObject mem_storage ?d bucket object m) = None" by simp
  from E1 have state: "snd (DeleteObject mem_storage ?d bucket object m) = ?m2" by simp
  have nf3: "faults ?m3 = (\<lambda>n. None)" using nf2 by simp
  have meta3: "files ?m3 (bucket, pathJoin ?d object multipartMetaFile) = None"
    using f2 by simp
  note B = mem_deleteObject_simple [OF nf3 meta3]
  from B o2 have r2: "fst (deleteObject mem_storage ?d bucket object ?m3) = Some errFileNotFound"
    by simp
  note E2 = mem_DeleteObject_eq [OF nf2 vol2 vb vo]
  from E2 r2 have "fst (DeleteObject mem_storage ?d bucket object ?m2)
                     = Some (ObjectNotFound bucket object)"
    by (simp add: mem_toObjectErr_def)
  with first state show ?thesis by simp
qed

text \<open>
  C4, as amended. When a multipart object is deleted again after a partial delete, a part
  deletion that fails with file-not-found is a failure like any other: \<^verbatim>\<open>deleteObject\<close>
  returns \<^verbatim>\<open>errUnexpected\<close> in the state the part deletions left, and the descriptor is
  not deleted. On a backend without faults (the backend in memory), deleting twice an
  object that is there, a simple file or a multipart object with its descriptor and all
  its part files, succeeds the first time and returns the translated file-not-found error,
  \<^verbatim>\<open>ObjectNotFound\<close>, the second time.
\<close>

theorem deleteObject_retry:
  "(\<forall>st1 info st2 errs st3.
       isMultipartObject S d bucket object st = (Inr True, st1)
       \<and> getMultipartObjectInfo S d bucket object st1 = (Inr info, st2)
       \<and> deleteParts S d bucket object (Parts info) st2 = (errs, st3)
       \<and> Some errFileNotFound \<in> set errs
       \<longrightarrow> deleteObject S d bucket object st = (Some errUnexpected, st3))
   \<and> (\<forall>m. faults m = (\<lambda>n. None) \<and> bucket \<in> set (vols m)
          \<and> IsValidBucketName (mem_deps table disks) bucket
          \<and> IsValidObjectName (mem_deps table disks) object
          \<and> files m (bucket, object) \<noteq> None
          \<and> files m (bucket, pathJoin (mem_deps table disks) object multipartMetaFile) = None
       \<longrightarrow> fst (DeleteObject mem_storage (mem_deps table disks) bucket object m) = None
           \<and> fst (DeleteObject mem_storage (mem_deps table disks) bucket object
                    (snd (DeleteObject mem_storage (mem_deps table disks) bucket object m)))
               = Some (ObjectNotFound bucket object))
   \<and> (\<forall>m raw info. faults m = (\<lambda>n. None) \<and> bucket \<in> set (vols m)
          \<and> IsValidBucketName (mem_deps table disks) bucket
          \<and> IsValidObjectName (mem_deps table disks) object
          \<and> files m (bucket, object) = None
          \<and> files m (bucket, pathJoin (mem_deps table disks) object multipartMetaFile) = Some raw
          \<and> json_Decode (mem_deps table disks) (raw, None) = Inr info
          \<and> distinct (map (\<lambda>p. pathJoin (mem_deps table disks) object
                                   (partNumToPartFileName (mem_deps table disks) (PartNumber p)))
                           (Parts info))
          \<and> pathJoin (mem_deps table disks) object multipartMetaFile
                \<notin> (\<lambda>p. pathJoin (mem_deps table disks) object
                           (partNumToPartFileName (mem_deps table disks) (PartNumber p)))
                   ` set (Parts info)
          \<and> (\<forall>p\<in>set (Parts info).
                 files m (bucket, pathJoin (mem_deps table disks) object
                                    (partNumToPartFileName (mem_deps table disks) (PartNumber p)))
                   \<noteq> None)
       \<longrightarrow> fst (DeleteObject mem_storage (mem_deps table disks) bucket object m) = None
           \<and> fst (DeleteObject mem_storage (mem_deps table disks) bucket object
                    (snd (DeleteObject mem_storage (mem_deps table disks) bucket object m)))
               = Some (ObjectNotFound bucket object))"
proof (intro conjI allI impI)
  fix st1 info st2 errs st3
  assume h: "isMultipartObject S d bucket object st = (Inr True, st1)
       \<and> getMultipartObjectInfo S d bucket object st1 = (Inr info, st2)
       \<and> deleteParts S d bucket object (Parts info) st2 = (errs, st3)
       \<and> Some errFileNotFound \<in> set errs"
  then have "anyError errs"
    by (auto simp: anyError_iff)
  with h show "deleteObject S d bucket object st = (Some errUnexpected, st3)"
    by (simp add: deleteObject_def)
next
  fix m :: mem
  assume "faults m = (\<lambda>n. None) \<and> bucket \<in> set (vols m)
          \<and> IsValidBucketName (mem_deps table disks) bucket
          \<and> IsValidObjectName (mem_deps table disks) object
          \<and> files m (bucket, object) \<noteq> None
          \<and> files m (bucket, pathJoin (mem_deps table disks) object multipartMetaFile) = None"
  then have both: "fst (DeleteObject mem_storage (mem_deps table disks) bucket object m) = None
           \<and> fst (DeleteObject mem_storage (mem_deps table disks) bucket object
                    (snd (DeleteObject mem_storage (mem_deps table disks) bucket object m)))
               = Some (ObjectNotFound bucket object)"
    using mem_DeleteObject_twice_simple [of m bucket table disks object] by blast
  from both show "fst (DeleteObject mem_storage (mem_deps table disks) bucket object m) = None" ..
  from both show "fst (DeleteObject mem_storage (mem_deps table disks) bucket object
                    (snd (DeleteObject mem_storage (mem_deps table disks) bucket object m)))
               = Some (ObjectNotFound bucket object)" ..
next
  fix m :: mem and raw info
  assume "faults m = (\<lambda>n. None) \<and> bucket \<in> set (vols m)
          \<and> IsValidBucketName (mem_deps table disks) bucket
          \<and> IsValidObjectName (mem_deps table disks) object
          \<and> files m (bucket, object) = None
          \<and> files m (bucket, pathJoin (mem_deps table disks) object multipartMetaFile) = Some raw
          \<and> json_Decode (mem_deps table disks) (raw, None) = Inr info
          \<and> distinct (map (\<lambda>p. pathJoin (mem_deps table disks) object
                                   (partNumToPartFileName (mem_deps table disks) (PartNumber p)))
                           (Parts info))
          \<and> pathJoin (mem_deps table disks) object multipartMetaFile
                \<notin> (\<lambda>p. pathJoin (mem_deps table disks) object
                           (partNumToPartFileName (mem_deps table disks) (PartNumber p)))
                   ` set (Parts info)
          \<and> (\<forall>p\<in>set (Parts info).
                 files m (bucket, pathJoin (mem_deps table disks) object
                                    (partNumToPartFileName (mem_deps table disks) (PartNumber p)))
                   \<noteq> None)"
  then have both: "fst (DeleteObject mem_storage (mem_deps table disks) bucket object m) = None
           \<and> fst (DeleteObject mem_storage (mem_deps table disks) bucket object
                    (snd (DeleteObject mem_storage (mem_deps table disks) bucket object m)))
               = Some (ObjectNotFound bucket object)"
    using mem_DeleteObject_twice_multipart [of m bucket table disks object raw info] by blast
  from both show "fst (DeleteObject mem_storage (mem_deps table disks) bucket object m) = None" ..
  from both show "fst (DeleteObject mem_storage (mem_deps table disks) bucket object
                    (snd (DeleteObject mem_storage (mem_deps table disks) bucket object m)))
               = Some (ObjectNotFound bucket object)" ..
qed

text \<open>
  On the backend in memory: the retry of a delete whose first part is already gone
  returns \<^verbatim>\<open>errUnexpected\<close>; a simple object and a complete multipart object are each
  deleted at the first call and reported as not found at the second.
\<close>

theorem deleteObject_retry_witness:
  "fst (deleteObject mem_storage
          (mem_deps [(''D'', \<lparr>Parts = [\<lparr>PartNumber = 1, part_Size = 5\<rparr>,
                                     \<lparr>PartNumber = 2, part_Size = 5\<rparr>],
                            mp_ModTime = 7, mp_Size = 10, mp_MD5Sum = ''abc''\<rparr>)] mem_empty)
          ''b1'' ''o1''
          (mem_empty\<lparr>vols := [''b1''],
                      files := [(''b1'', ''o1/00000.minio.multipart'') \<mapsto> ''D'',
                                (''b1'', ''o1/00002.minio.multipart'') \<mapsto> ''fghij'']\<rparr>))
     = Some errUnexpected
   \<and> fst (DeleteObject mem_storage
          (mem_deps [(''D'', \<lparr>Parts = [\<lparr>PartNumber = 1, part_Size = 5\<rparr>,
                                     \<lparr>PartNumber = 2, part_Size = 5\<rparr>],
                            mp_ModTime = 7, mp_Size = 10, mp_MD5Sum = ''abc''\<rparr>)] mem_empty)
          ''b1'' ''o2''
          (mem_empty\<lparr>vols := [''b1''], files := [(''b1'', ''o2'') \<mapsto> ''x'']\<rparr>))
     = None
   \<and> fst (DeleteObject mem_storage
          (mem_deps [(''D'', \<lparr>Parts = [\<lparr>PartNumber = 1, part_Size = 5\<rparr>,
                                     \<lparr>PartNumber = 2, part_Size = 5\<rparr>],
                            mp_ModTime = 7, mp_Size = 10, mp_MD5Sum = ''abc''\<rparr>)] mem_empty)
          ''b1'' ''o2''
          (snd (DeleteObject mem_storage
                  (mem_deps [(''D'', \<lparr>Parts = [\<lparr>PartNumber = 1, part_Size = 5\<rparr>,
                                             \<lparr>PartNumber = 2, part_Size = 5\<rparr>],
                                    mp_ModTime = 7, mp_Size = 10, mp_MD5Sum = ''abc''\<rparr>)] mem_empty)
                  ''b1'' ''o2''
                  (mem_empty\<lparr>vols := [''b1''], files := [(''b1'', ''o2'') \<mapsto> ''x'']\<rparr>))))
     = Some (ObjectNotFound ''b1'' ''o2'')
   \<and> fst (DeleteObject mem_storage
          (mem_deps [(''D'', \<lparr>Parts = [\<lparr>PartNumber = 1, part_Size = 5\<rparr>,
                                     \<lparr>PartNumber = 2, part_Size = 5\<rparr>],
                            mp_ModTime = 7, mp_Size = 10, mp_MD5Sum = ''abc''\<rparr>)] mem_empty)
          ''b1'' ''o1''
          (mem_empty\<lparr>vols := [''b1''],
                      files := [(''b1'', ''o1/00000.minio.multipart'') \<mapsto> ''D'',
                                (''b1'', ''o1/00001.minio.multipart'') \<mapsto> ''abcde'',
                                (''b1'', ''o1/00002.minio.multipart'') \<mapsto> ''fghij'']\<rparr>))
     = None
   \<and> fst (DeleteObject mem_storage
          (mem_deps [(''D'', \<lparr>Parts = [\<lparr>PartNumber = 1, part_Size = 5\<rparr>,
                                     \<lparr>PartNumber = 2, part_Size = 5\<rparr>],
                            mp_ModTime = 7, mp_Size = 10, mp_MD5Sum = ''abc''\<rparr>)] mem_empty)
          ''b1'' ''o1''
          (snd (DeleteObject mem_storage
                  (mem_deps [(''D'', \<lparr>Parts = [\<lparr>PartNumber = 1, part_Size = 5\<rparr>,
                                             \<lparr>PartNumber = 2, part_Size = 5\<rparr>],
                                    mp_ModTime = 7, mp_Size = 10, mp_MD5Sum = ''abc''\<rparr>)] mem_empty)
                  ''b1'' ''o1''
                  (mem_empty\<lparr>vols := [''b1''],
                      files := [(''b1'', ''o1/00000.minio.multipart'') \<mapsto> ''D'',
                                (''b1'', ''o1/00001.minio.multipart'') \<mapsto> ''abcde'',
                                (''b1'', ''o1/00002.minio.multipart'') \<mapsto> ''fghij'']\<rparr>))))
     = Some (ObjectNotFound ''b1'' ''o1'')"
proof -
  let ?info = "\<lparr>Parts = [\<lparr>PartNumber = 1, part_Size = 5\<rparr>, \<lparr>PartNumber = 2, part_Size = 5\<rparr>],
                mp_ModTime = 7, mp_Size = 10, mp_MD5Sum = ''abc''\<rparr>"
  let ?table = "[(''D'', ?info)]"
  let ?d = "mem_deps ?table mem_empty"
  let ?P = "mem_empty\<lparr>vols := [''b1''],
                      files := [(''b1'', ''o1/00000.minio.multipart'') \<mapsto> ''D'',
                                (''b1'', ''o1/00002.minio.multipart'') \<mapsto> ''fghij'']\<rparr>"
  let ?M = "mem_empty\<lparr>vols := [''b1''], files := [(''b1'', ''o2'') \<mapsto> ''x'']\<rparr>"
  let ?F = "mem_empty\<lparr>vols := [''b1''],
                      files := [(''b1'', ''o1/00000.minio.multipart'') \<mapsto> ''D'',
                                (''b1'', ''o1/00001.minio.multipart'') \<mapsto> ''abcde'',
                                (''b1'', ''o1/00002.minio.multipart'') \<mapsto> ''fghij'']\<rparr>"
  note T1 = deleteObject_retry [where S = mem_storage and d = ?d and bucket = "''b1''"
              and object = "''o1''" and st = ?P and table = ?table and disks = mem_empty]
  note T2 = deleteObject_retry [where S = mem_storage and d = ?d and bucket = "''b1''"
              and object = "''o2''" and st = ?P and table = ?table and disks = mem_empty]
  text \<open>The retry after a partial delete.\<close>
  let ?st1 = "snd (isMultipartObject mem_storage ?d ''b1'' ''o1'' ?P)"
  let ?st2 = "snd (getMultipartObjectInfo mem_storage ?d ''b1'' ''o1'' ?st1)"
  let ?st3 = "snd (deleteParts mem_storage ?d ''b1'' ''o1'' (Parts ?info) ?st2)"
  have a: "isMultipartObject mem_storage ?d ''b1'' ''o1'' ?P = (Inr True, ?st1)
       \<and> getMultipartObjectInfo mem_storage ?d ''b1'' ''o1'' ?st1 = (Inr ?info, ?st2)
       \<and> deleteParts mem_storage ?d ''b1'' ''o1'' (Parts ?info) ?st2
           = ([Some errFileNotFound, None], ?st3)
       \<and> Some errFileNotFound \<in> set [Some errFileNotFound, None]"
    by (simp add: prod_eq_iff ops_eval mem_eval)
  have "deleteObject mem_storage ?d ''b1'' ''o1'' ?P = (Some errUnexpected, ?st3)"
    by (rule T1 [THEN conjunct1, rule_format, OF a])
  then have r1: "fst (deleteObject mem_storage ?d ''b1'' ''o1'' ?P) = Some errUnexpected"
    by simp
  text \<open>A simple object, deleted twice.\<close>
  have b: "faults ?M = (\<lambda>n. None) \<and> ''b1'' \<in> set (vols ?M)
          \<and> IsValidBucketName ?d ''b1'' \<and> IsValidObjectName ?d ''o2''
          \<and> files ?M (''b1'', ''o2'') \<noteq> None
          \<and> files ?M (''b1'', pathJoin ?d ''o2'' multipartMetaFile) = None"
    by (simp add: mem_eval)
  note r2 = T2 [THEN conjunct2, THEN conjunct1, rule_format, OF b]
  text \<open>A complete multipart object, deleted twice.\<close>
  have c: "faults ?F = (\<lambda>n. None) \<and> ''b1'' \<in> set (vols ?F)
          \<and> IsValidBucketName ?d ''b1'' \<and> IsValidObjectName ?d ''o1''
          \<and> files ?F (''b1'', ''o1'') = None
          \<and> files ?F (''b1'', pathJoin ?d ''o1'' multipartMetaFile) = Some ''D''
          \<and> json_Decode ?d (''D'', None) = Inr ?info
          \<and> distinct (map (\<lambda>p. pathJoin ?d ''o1'' (partNumToPartFileName ?d (PartNumber p)))
                           (Parts ?info))
          \<and> pathJoin ?d ''o1'' multipartMetaFile
                \<notin> (\<lambda>p. pathJoin ?d ''o1'' (partNumToPartFileName ?d (PartNumber p)))
                   ` set (Parts ?info)
          \<and> (\<forall>p\<in>set (Parts ?info).
                 files ?F (''b1'', pathJoin ?d ''o1'' (partNumToPartFileName ?d (PartNumber p)))
                   \<noteq> None)"
    by (simp add: mem_eval)
  note r3 = T1 [THEN conjunct2, THEN conjunct2, rule_format, OF c]
  show ?thesis
    by (rule conjI [OF r1 conjI [OF r2 [THEN conjunct1] conjI [OF r2 [THEN conjunct2] r3]]])
qed

text \<open>
  C4 as stated fails. A multipart object of two parts is deleted with a fault in the
  deletion of the second part, which leaves the descriptor and the second part. When the
  delete is tried again after the fault has cleared, the deletion of the first part
  returns file-not-found, which is not taken as success: the delete fails again with
  \<^verbatim>\<open>errUnexpected\<close>, and the descriptor is still there.
\<close>

theorem deleteObject_retry_counterexample:
  "fst (DeleteObject mem_storage
          (mem_deps [(''D'', \<lparr>Parts = [\<lparr>PartNumber = 1, part_Size = 5\<rparr>,
                                     \<lparr>PartNumber = 2, part_Size = 5\<rparr>],
                            mp_ModTime = 7, mp_Size = 10, mp_MD5Sum = ''abc''\<rparr>)] mem_empty)
          ''b1'' ''o1''
          (mem_empty\<lparr>vols := [''b1''],
                      files := [(''b1'', ''o1/00000.minio.multipart'') \<mapsto> ''D'',
                                (''b1'', ''o1/00001.minio.multipart'') \<mapsto> ''abcde'',
                                (''b1'', ''o1/00002.minio.multipart'') \<mapsto> ''fghij''],
                      faults := (\<lambda>n. if n = 4 then Some errDiskNotFound else None)\<rparr>))
     = Some errUnexpected
   \<and> fst (DeleteFile mem_storage ''b1'' ''o1/00001.minio.multipart''
          ((snd (DeleteObject mem_storage
                  (mem_deps [(''D'', \<lparr>Parts = [\<lparr>PartNumber = 1, part_Size = 5\<rparr>,
                                             \<lparr>PartNumber = 2, part_Size = 5\<rparr>],
                                    mp_ModTime = 7, mp_Size = 10, mp_MD5Sum = ''abc''\<rparr>)] mem_empty)
                  ''b1'' ''o1''
                  (mem_empty\<lparr>vols := [''b1''],
                      files := [(''b1'', ''o1/00000.minio.multipart'') \<mapsto> ''D'',
                                (''b1'', ''o1/00001.minio.multipart'') \<mapsto> ''abcde'',
                                (''b1'', ''o1/00002.minio.multipart'') \<mapsto> ''fghij''],
                      faults := (\<lambda>n. if n = 4 then Some errDiskNotFound else None)\<rparr>)))
             \<lparr>faults := (\<lambda>n. None)\<rparr>))
     = Some errFileNotFound
   \<and> fst (DeleteObject mem_storage
          (mem_deps [(''D'', \<lparr>Parts = [\<lparr>PartNumber = 1, part_Size = 5\<rparr>,
                                     \<lparr>PartNumber = 2, part_Size = 5\<rparr>],
                            mp_ModTime = 7, mp_Size = 10, mp_MD5Sum = ''abc''\<rparr>)] mem_empty)
          ''b1'' ''o1''
          ((snd (DeleteObject mem_storage
                  (mem_deps [(''D'', \<lparr>Parts = [\<lparr>PartNumber = 1, part_Size = 5\<rparr>,
                                             \<lparr>PartNumber = 2, part_Size = 5\<rparr>],
                                    mp_ModTime = 7, mp_Size = 10, mp_MD5Sum = ''abc''\<rparr>)] mem_empty)
                  ''b1'' ''o1''
                  (mem_empty\<lparr>vols := [''b1''],
                      files := [(''b1'', ''o1/00000.minio.multipart'') \<mapsto> ''D'',
                                (''b1'', ''o1/00001.minio.multipart'') \<mapsto> ''abcde'',
                                (''b1'', ''o1/00002.minio.multipart'') \<mapsto> ''fghij''],
                      faults := (\<lambda>n. if n = 4 then Some errDiskNotFound else None)\<rparr>)))
             \<lparr>faults := (\<lambda>n. None)\<rparr>))
     = Some errUnexpected
   \<and> files (snd (DeleteObject mem_storage
          (mem_deps [(''D'', \<lparr>Parts = [\<lparr>PartNumber = 1, part_Size = 5\<rparr>,
                                     \<lparr>PartNumber = 2, part_Size = 5\<rparr>],
                            mp_ModTime = 7, mp_Size = 10, mp_MD5Sum = ''abc''\<rparr>)] mem_empty)
          ''b1'' ''o1''
          ((snd (DeleteObject mem_storage
                  (mem_deps [(''D'', \<lparr>Parts = [\<lparr>PartNumber = 1, part_Size = 5\<rparr>,
                                             \<lparr>PartNumber = 2, part_Size = 5\<rparr>],
                                    mp_ModTime = 7, mp_Size = 10, mp_MD5Sum = ''abc''\<rparr>)] mem_empty)
                  ''b1'' ''o1''
                  (mem_empty\<lparr>vols := [''b1''],
                      files := [(''b1'', ''o1/00000.minio.multipart'') \<mapsto> ''D'',
                                (''b1'', ''o1/00001.minio.multipart'') \<mapsto> ''abcde'',
                                (''b1'', ''o1/00002.minio.multipart'') \<mapsto> ''fghij''],
                      faults := (\<lambda>n. if n = 4 then Some errDiskNotFound else None)\<rparr>)))
             \<lparr>faults := (\<lambda>n. None)\<rparr>)))
        (''b1'', ''o1/00000.minio.multipart'') = Some ''D''"
  by (simp add: ops_eval mem_eval)

section \<open>\<^verbatim>\<open>GetObject\<close>: properties\<close>

lemma readParts_all:
  assumes "I st"
    and "\<forall>p\<in>set parts. part_Size p = int (length (content p))"
    and "\<forall>p\<in>set parts. \<forall>off s. I s \<and> 0 \<le> off \<and> off \<le> part_Size p \<longrightarrow>
           (\<exists>s'. ReadFile S bucket (pathJoin d object (partNumToPartFileName d (PartNumber p))) off s
                   = (Inr (drop (nat off) (content p), None), s') \<and> I s')"
  shows "\<exists>st'. readParts S d bucket object parts 0 st
                 = ((concat (map content parts), None), st') \<and> I st'"
  using assms
proof (induction parts arbitrary: st)
  case Nil
  then show ?case by simp
next
  case (Cons part rest)
  from Cons.prems(2) have "0 \<le> part_Size part" by simp
  with Cons.prems(1,3) obtain s1 where
    rd: "ReadFile S bucket (pathJoin d object (partNumToPartFileName d (PartNumber part))) 0 st
           = (Inr (drop (nat 0) (content part), None), s1)" and i1: "I s1"
    by (metis list.set_intros(1) order_refl)
  from Cons.prems(2,3) have
    "\<forall>p\<in>set rest. part_Size p = int (length (content p))"
    "\<forall>p\<in>set rest. \<forall>off s. I s \<and> 0 \<le> off \<and> off \<le> part_Size p \<longrightarrow>
           (\<exists>s'. ReadFile S bucket (pathJoin d object (partNumToPartFileName d (PartNumber p))) off s
                   = (Inr (drop (nat off) (content p), None), s') \<and> I s')"
    by simp_all
  from Cons.IH [OF i1 this] obtain s2 where
    "readParts S d bucket object rest 0 s1 = ((concat (map content rest), None), s2)" and "I s2"
    by blast
  with rd show ?case by simp
qed

lemma locate_readParts:
  assumes "I st"
    and "\<forall>p\<in>set parts. part_Size p = int (length (content p))"
    and "\<forall>p\<in>set parts. \<forall>off s. I s \<and> 0 \<le> off \<and> off \<le> part_Size p \<longrightarrow>
           (\<exists>s'. ReadFile S bucket (pathJoin d object (partNumToPartFileName d (PartNumber p))) off s
                   = (Inr (drop (nat off) (content p), None), s') \<and> I s')"
    and "cum \<le> offset"
  shows "(offset \<le> cum + sum_list (map part_Size parts) \<longrightarrow>
           (\<exists>i r st'. locate parts idx cum offset = Inr (i, r) \<and> idx \<le> i
              \<and> readParts S d bucket object (drop (i - idx) parts) r st
                  = ((drop (nat (offset - cum)) (concat (map content parts)), None), st')
              \<and> I st'))
       \<and> (cum + sum_list (map part_Size parts) < offset \<longrightarrow>
            locate parts idx cum offset = Inl errUnexpected)"
  using assms
proof (induction parts arbitrary: idx cum)
  case Nil
  then show ?case by auto
next
  case (Cons part rest)
  have sz: "part_Size part = int (length (content part))"
    using Cons.prems(2) by simp
  have restZ: "\<forall>p\<in>set rest. part_Size p = int (length (content p))"
    and restR: "\<forall>p\<in>set rest. \<forall>off s. I s \<and> 0 \<le> off \<and> off \<le> part_Size p \<longrightarrow>
           (\<exists>s'. ReadFile S bucket (pathJoin d object (partNumToPartFileName d (PartNumber p))) off s
                   = (Inr (drop (nat off) (content p), None), s') \<and> I s')"
    using Cons.prems(2,3) by simp_all
  show ?case
  proof (cases "offset < cum + part_Size part")
    case True
    let ?r = "offset - cum"
    have r0: "0 \<le> ?r" "?r \<le> part_Size part"
      using True Cons.prems(4) by simp_all
    with Cons.prems(1,3) obtain s1 where
      rd: "ReadFile S bucket (pathJoin d object (partNumToPartFileName d (PartNumber part))) ?r st
             = (Inr (drop (nat ?r) (content part), None), s1)" and i1: "I s1"
      by (metis list.set_intros(1))
    from readParts_all [of I s1 rest content S bucket d object, OF i1 restZ restR] obtain s2 where
      rest: "readParts S d bucket object rest 0 s1 = ((concat (map content rest), None), s2)"
      and i2: "I s2"
      by blast
    have len: "nat ?r \<le> length (content part)"
      using r0 sz by simp
    have "readParts S d bucket object (part # rest) ?r st
            = ((drop (nat ?r) (content part) @ concat (map content rest), None), s2)"
      using rd rest by simp
    moreover have "drop (nat ?r) (concat (map content (part # rest)))
                     = drop (nat ?r) (content part) @ concat (map content rest)"
      using len by simp
    moreover have "0 \<le> sum_list (map part_Size rest)"
      using restZ by (induction rest) auto
    ultimately show ?thesis
      using True i2 sz by (auto intro!: exI [of _ idx])
  next
    case False
    then have le: "cum + part_Size part \<le> offset" by simp
    note IH = Cons.IH [of "cum + part_Size part" "Suc idx", OF Cons.prems(1) restZ restR le]
    have dropeq: "drop (nat (offset - cum)) (concat (map content (part # rest)))
                    = drop (nat (offset - (cum + part_Size part))) (concat (map content rest))"
    proof -
      have "nat (offset - cum) - length (content part) = nat (offset - (cum + part_Size part))"
        using sz by simp
      moreover have "length (content part) \<le> nat (offset - cum)"
        using le sz by simp
      ultimately show ?thesis by simp
    qed
    show ?thesis
    proof (intro conjI impI)
      assume "offset \<le> cum + sum_list (map part_Size (part # rest))"
      then have "offset \<le> cum + part_Size part + sum_list (map part_Size rest)" by simp
      with IH obtain i r st' where
        l: "locate rest (Suc idx) (cum + part_Size part) offset = Inr (i, r)"
        and ge: "Suc idx \<le> i"
        and rp: "readParts S d bucket object (drop (i - Suc idx) rest) r st
                  = ((drop (nat (offset - (cum + part_Size part))) (concat (map content rest)), None),
                     st')"
        and inv: "I st'"
        by blast
      from ge have "drop (i - idx) (part # rest) = drop (i - Suc idx) rest"
        by (metis Suc_diff_le diff_Suc_Suc drop_Suc_Cons)
      with l ge rp inv dropeq False
      show "\<exists>i r st'. locate (part # rest) idx cum offset = Inr (i, r) \<and> idx \<le> i
              \<and> readParts S d bucket object (drop (i - idx) (part # rest)) r st
                  = ((drop (nat (offset - cum)) (concat (map content (part # rest))), None), st')
              \<and> I st'"
        by (intro exI [of _ i] exI [of _ r] exI [of _ st']) simp
    next
      assume "cum + sum_list (map part_Size (part # rest)) < offset"
      then have "cum + part_Size part + sum_list (map part_Size rest) < offset" by simp
      with IH False show "locate (part # rest) idx cum offset = Inl errUnexpected"
        by simp
    qed
  qed
qed

lemma sum_part_sizes:
  "\<forall>p\<in>set parts. part_Size p = int (length (content p)) \<Longrightarrow>
     sum_list (map part_Size parts) = int (length (concat (map content parts)))"
  by (induction parts) simp_all

text \<open>
  C2. Let a multipart object be stored behind the storage interface: the descriptor exists
  and loads, every part \<open>p\<close> of it has the contents \<open>content p\<close> of the size the
  descriptor records, and a read of a part's file from an offset within it returns the
  contents from that offset on, in every backend state that a condition \<open>I\<close> describes
  and that reads preserve. Then \<^verbatim>\<open>GetObject\<close> at an offset below the sum of the part sizes
  returns the stream of the concatenated contents from that offset on, ending without
  error; at an offset equal to the sum it returns the empty stream; and at an offset
  beyond the sum it returns an error and no stream. The owning part and the offset
  within it come from \<^verbatim>\<open>GetPartNumberOffset\<close>, which is modelled from the spec.
\<close>

theorem GetObject_multipart:
  assumes "IsValidBucketName d bucket"
    and "isBucketExist d bucket st = (True, st1)"
    and "IsValidObjectName d object"
    and "isMultipartObject S d bucket object st1 = (Inr True, st2)"
    and "getMultipartObjectInfo S d bucket object st2 = (Inr info, st3)"
    and "I st3"
    and "\<forall>p\<in>set (Parts info). part_Size p = int (length (content p))"
    and "\<forall>p\<in>set (Parts info). \<forall>off s. I s \<and> 0 \<le> off \<and> off \<le> part_Size p \<longrightarrow>
           (\<exists>s'. ReadFile S bucket (pathJoin d object (partNumToPartFileName d (PartNumber p))) off s
                   = (Inr (drop (nat off) (content p), None), s') \<and> I s')"
  shows
    "(0 \<le> offset \<and> offset < sum_list (map part_Size (Parts info)) \<longrightarrow>
        fst (GetObject S d bucket object offset st)
          = Inr (drop (nat offset) (concat (map content (Parts info))), None))
     \<and> (offset = sum_list (map part_Size (Parts info)) \<longrightarrow>
        fst (GetObject S d bucket object offset st) = Inr ([], None))
     \<and> (sum_list (map part_Size (Parts info)) < offset \<longrightarrow>
        fst (GetObject S d bucket object offset st)
          = Inl (toObjectErr d errUnexpected bucket object))"
proof -
  let ?total = "sum_list (map part_Size (Parts info))"
  have run: "GetObject S d bucket object offset st =
      (case GetPartNumberOffset info offset of
         Inl err \<Rightarrow> (Inl (toObjectErr d err bucket object), st3)
       | Inr (partIndex, r) \<Rightarrow>
           (case readParts S d bucket object (drop partIndex (Parts info)) r st3 of
              (fileReader, st4) \<Rightarrow> (Inr fileReader, st4)))"
    using assms(1-5) by (simp add: GetObject_def)
  have total: "?total = int (length (concat (map content (Parts info))))"
    using assms(7) by (rule sum_part_sizes)
  have nonneg: "0 \<le> ?total"
    using total by simp
  have inside: "fst (GetObject S d bucket object offset st)
                  = Inr (drop (nat offset) (concat (map content (Parts info))), None)"
    if "0 \<le> offset" and "offset \<le> ?total"
  proof -
    from locate_readParts [of I st3 "Parts info" content S bucket d object 0 offset 0,
                           OF assms(6,7,8) that(1)] that(2)
    obtain i r st' where
      "locate (Parts info) 0 0 offset = Inr (i, r)"
      "readParts S d bucket object (drop (i - 0) (Parts info)) r st3
         = ((drop (nat (offset - 0)) (concat (map content (Parts info))), None), st')"
      by auto
    with that(1) show ?thesis
      unfolding run by (simp add: GetPartNumberOffset_def)
  qed
  have a: "0 \<le> offset \<and> offset < ?total \<longrightarrow>
        fst (GetObject S d bucket object offset st)
          = Inr (drop (nat offset) (concat (map content (Parts info))), None)"
    using inside by simp
  have b: "offset = ?total \<longrightarrow> fst (GetObject S d bucket object offset st) = Inr ([], None)"
  proof
    assume eq: "offset = ?total"
    with nonneg have "0 \<le> offset" and "offset \<le> ?total" by simp_all
    from inside [OF this] eq total
    show "fst (GetObject S d bucket object offset st) = Inr ([], None)" by simp
  qed
  have c: "?total < offset \<longrightarrow>
        fst (GetObject S d bucket object offset st) = Inl (toObjectErr d errUnexpected bucket object)"
  proof
    assume beyond: "?total < offset"
    with nonneg have "0 \<le> offset" by simp
    from locate_readParts [of I st3 "Parts info" content S bucket d object 0 offset 0,
                           OF assms(6,7,8) this] beyond
    have "locate (Parts info) 0 0 offset = Inl errUnexpected" by simp
    with \<open>0 \<le> offset\<close> show "fst (GetObject S d bucket object offset st)
                                = Inl (toObjectErr d errUnexpected bucket object)"
      unfolding run by (simp add: GetPartNumberOffset_def)
  qed
  show ?thesis by (rule conjI [OF a conjI [OF b c]])
qed

text \<open>
  The object of the parts \<open>abcde\<close> and \<open>fghij\<close> on the backend in memory; \<open>I\<close> says
  that the files are these and that no fault is planned. From offset 7 the stream is
  \<open>hij\<close>, from offset 10 it is empty, and offset 11 is an error.
\<close>

theorem GetObject_multipart_witness:
  "fst (GetObject mem_storage
          (mem_deps [(''D'', \<lparr>Parts = [\<lparr>PartNumber = 1, part_Size = 5\<rparr>,
                                     \<lparr>PartNumber = 2, part_Size = 5\<rparr>],
                            mp_ModTime = 7, mp_Size = 10, mp_MD5Sum = ''abc''\<rparr>)] mem_empty)
          ''b1'' ''o1'' 7
          (mem_empty\<lparr>vols := [''b1''],
                      files := [(''b1'', ''o1/00000.minio.multipart'') \<mapsto> ''D'',
                                (''b1'', ''o1/00001.minio.multipart'') \<mapsto> ''abcde'',
                                (''b1'', ''o1/00002.minio.multipart'') \<mapsto> ''fghij'']\<rparr>))
     = Inr (''hij'', None)
   \<and> fst (GetObject mem_storage
          (mem_deps [(''D'', \<lparr>Parts = [\<lparr>PartNumber = 1, part_Size = 5\<rparr>,
                                     \<lparr>PartNumber = 2, part_Size = 5\<rparr>],
                            mp_ModTime = 7, mp_Size = 10, mp_MD5Sum = ''abc''\<rparr>)] mem_empty)
          ''b1'' ''o1'' 10
          (mem_empty\<lparr>vols := [''b1''],
                      files := [(''b1'', ''o1/00000.minio.multipart'') \<mapsto> ''D'',
                                (''b1'', ''o1/00001.minio.multipart'') \<mapsto> ''abcde'',
                                (''b1'', ''o1/00002.minio.multipart'') \<mapsto> ''fghij'']\<rparr>))
     = Inr ([], None)
   \<and> fst (GetObject mem_storage
          (mem_deps [(''D'', \<lparr>Parts = [\<lparr>PartNumber = 1, part_Size = 5\<rparr>,
                                     \<lparr>PartNumber = 2, part_Size = 5\<rparr>],
                            mp_ModTime = 7, mp_Size = 10, mp_MD5Sum = ''abc''\<rparr>)] mem_empty)
          ''b1'' ''o1'' 11
          (mem_empty\<lparr>vols := [''b1''],
                      files := [(''b1'', ''o1/00000.minio.multipart'') \<mapsto> ''D'',
                                (''b1'', ''o1/00001.minio.multipart'') \<mapsto> ''abcde'',
                                (''b1'', ''o1/00002.minio.multipart'') \<mapsto> ''fghij'']\<rparr>))
     = Inl errUnexpected"
proof -
  let ?info = "\<lparr>Parts = [\<lparr>PartNumber = 1, part_Size = 5\<rparr>, \<lparr>PartNumber = 2, part_Size = 5\<rparr>],
                mp_ModTime = 7, mp_Size = 10, mp_MD5Sum = ''abc''\<rparr>"
  let ?d = "mem_deps [(''D'', ?info)] mem_empty"
  let ?fs = "[(''b1'', ''o1/00000.minio.multipart'') \<mapsto> ''D'',
              (''b1'', ''o1/00001.minio.multipart'') \<mapsto> ''abcde'',
              (''b1'', ''o1/00002.minio.multipart'') \<mapsto> ''fghij'']"
  let ?F = "mem_empty\<lparr>vols := [''b1''], files := ?fs\<rparr>"
  let ?content = "\<lambda>p. if PartNumber p = 1 then ''abcde'' else ''fghij''"
  let ?I = "\<lambda>s. files s = ?fs \<and> faults s = (\<lambda>n. None)"
  let ?st1 = "snd (isBucketExist ?d ''b1'' ?F)"
  let ?st2 = "snd (isMultipartObject mem_storage ?d ''b1'' ''o1'' ?st1)"
  let ?st3 = "snd (getMultipartObjectInfo mem_storage ?d ''b1'' ''o1'' ?st2)"
  have h1: "IsValidBucketName ?d ''b1''"
    by (simp add: mem_eval)
  have h2: "isBucketExist ?d ''b1'' ?F = (True, ?st1)"
    by (simp add: prod_eq_iff mem_eval)
  have h3: "IsValidObjectName ?d ''o1''"
    by (simp add: mem_eval)
  have h4: "isMultipartObject mem_storage ?d ''b1'' ''o1'' ?st1 = (Inr True, ?st2)"
    by (simp add: prod_eq_iff ops_eval mem_eval)
  have h5: "getMultipartObjectInfo mem_storage ?d ''b1'' ''o1'' ?st2 = (Inr ?info, ?st3)"
    by (simp add: prod_eq_iff ops_eval mem_eval)
  have h6: "?I ?st3"
    by (simp add: ops_eval mem_eval)
  have h7: "\<forall>p\<in>set (Parts ?info). part_Size p = int (length (?content p))"
    by simp
  have h8: "\<forall>p\<in>set (Parts ?info). \<forall>off s. ?I s \<and> 0 \<le> off \<and> off \<le> part_Size p \<longrightarrow>
           (\<exists>s'. ReadFile mem_storage ''b1''
                    (pathJoin ?d ''o1'' (partNumToPartFileName ?d (PartNumber p))) off s
                   = (Inr (drop (nat off) (?content p), None), s') \<and> ?I s')"
    by (simp add: mem_eval)
  note T = GetObject_multipart [where I = ?I and content = ?content and S = mem_storage
             and d = ?d and info = ?info, OF h1 h2 h3 h4 h5 h6 h7 h8]
  have total: "sum_list (map part_Size (Parts ?info)) = 10"
    by simp
  have r7: "fst (GetObject mem_storage ?d ''b1'' ''o1'' 7 ?F) = Inr (''hij'', None)"
    using T [of 7, THEN conjunct1] total by simp
  have r10: "fst (GetObject mem_storage ?d ''b1'' ''o1'' 10 ?F) = Inr ([], None)"
    using T [of 10, THEN conjunct2, THEN conjunct1] total by simp
  have r11: "fst (GetObject mem_storage ?d ''b1'' ''o1'' 11 ?F) = Inl errUnexpected"
    using T [of 11, THEN conjunct2, THEN conjunct2] total by (simp add: mem_eval)
  show ?thesis
    by (rule conjI [OF r7 conjI [OF r10 r11]])
qed


end
